theory Spec2Isabelle
  imports Complex_Main "HOL-Library.Sublist"
begin

section \<open>JavaScript strings\<close>

text \<open>
  A JavaScript string is modelled as a \<^typ>\<open>string\<close>: one \<^typ>\<open>char\<close> per code unit, for
  the code units below 256. The functions of this section are the built-in string methods
  the generator and the converter call, written out for these strings.
\<close>

abbreviation NL :: char where
  "NL \<equiv> CHR 0x0A"

text \<open>The white space and line terminators that \<^verbatim>\<open>String.prototype.trim\<close> removes.\<close>

definition js_is_space :: "char \<Rightarrow> bool" where
  "js_is_space c =
     (c = CHR 0x09 \<or> c = CHR 0x0A \<or> c = CHR 0x0B \<or> c = CHR 0x0C \<or> c = CHR 0x0D
      \<or> c = CHR 0x20 \<or> c = CHR 0xA0)"

definition js_trim :: "string \<Rightarrow> string" where
  "js_trim s = rev (dropWhile js_is_space (rev (dropWhile js_is_space s)))"

definition js_startsWith :: "string \<Rightarrow> string \<Rightarrow> bool" where
  "js_startsWith s p = prefix p s"

text \<open>\<^verbatim>\<open>s.includes(p)\<close>: \<open>p\<close> occurs in \<open>s\<close> as a contiguous run.\<close>

fun js_includes :: "string \<Rightarrow> string \<Rightarrow> bool" where
  "js_includes [] p = (p = [])"
| "js_includes (c # cs) p = (prefix p (c # cs) \<or> js_includes cs p)"

text \<open>\<^verbatim>\<open>xs[i]\<close> on an array: \<open>None\<close> stands for \<^verbatim>\<open>undefined\<close>.\<close>

fun js_index :: "'a list \<Rightarrow> nat \<Rightarrow> 'a option" where
  "js_index [] i = None"
| "js_index (x # xs) 0 = Some x"
| "js_index (x # xs) (Suc i) = js_index xs i"

fun cons_first :: "char \<Rightarrow> string list \<Rightarrow> string list" where
  "cons_first c [] = [[c]]"
| "cons_first c (p # ps) = (c # p) # ps"

text \<open>
  \<^verbatim>\<open>s.split(sep)\<close> for a non-empty separator: the pieces between the occurrences of
  \<open>sep\<close>, found from left to right without overlap.
\<close>

fun split_at :: "string \<Rightarrow> string \<Rightarrow> string list" where
  "split_at sep [] = [[]]"
| "split_at sep (c # cs) =
     (if sep \<noteq> [] \<and> prefix sep (c # cs)
      then [] # split_at sep (drop (length sep) (c # cs))
      else cons_first c (split_at sep cs))"

text \<open>With the empty separator \<^verbatim>\<open>split\<close> returns the code units one by one.\<close>

definition js_split :: "string \<Rightarrow> string \<Rightarrow> string list" where
  "js_split s sep = (if sep = [] then map (\<lambda>c. [c]) s else split_at sep s)"

text \<open>\<^verbatim>\<open>xs.join(sep)\<close> on an array of strings.\<close>

fun js_join :: "string list \<Rightarrow> string \<Rightarrow> string" where
  "js_join [] sep = []"
| "js_join [x] sep = x"
| "js_join (x # y # ys) sep = x @ sep @ js_join (y # ys) sep"

text \<open>The position of the first occurrence of \<open>p\<close> in \<open>s\<close>.\<close>

fun index_of :: "string \<Rightarrow> string \<Rightarrow> nat option" where
  "index_of [] p = (if p = [] then Some 0 else None)"
| "index_of (c # cs) p =
     (if prefix p (c # cs) then Some 0 else map_option Suc (index_of cs p))"

text \<open>
  The replacement text of \<^verbatim>\<open>replace\<close> with a string pattern: \<^verbatim>\<open>$$\<close> is a dollar sign,
  \<^verbatim>\<open>$&\<close> the matched text, \<^verbatim>\<open>$`\<close> the text before the match and \<^verbatim>\<open>$'\<close> the text after
  it; a string pattern has no capture groups, so every other \<^verbatim>\<open>$\<close> stays as it is.
\<close>

fun get_substitution :: "string \<Rightarrow> string \<Rightarrow> string \<Rightarrow> string \<Rightarrow> string" where
  "get_substitution matched preceding following [] = []"
| "get_substitution matched preceding following [c] = [c]"
| "get_substitution matched preceding following (c # d # r) =
     (if c = CHR ''$'' \<and> d = CHR ''$'' then CHR ''$'' # get_substitution matched preceding following r
      else if c = CHR ''$'' \<and> d = CHR ''&'' then matched @ get_substitution matched preceding following r
      else if c = CHR ''$'' \<and> d = CHR 0x60 then preceding @ get_substitution matched preceding following r
      else if c = CHR ''$'' \<and> d = CHR 0x27 then following @ get_substitution matched preceding following r
      else c # get_substitution matched preceding following (d # r))"

text \<open>\<^verbatim>\<open>s.replace(p, r)\<close> with a string pattern: only the first occurrence is replaced.\<close>

definition js_replace :: "string \<Rightarrow> string \<Rightarrow> string \<Rightarrow> string" where
  "js_replace s p r =
     (case index_of s p of
        None \<Rightarrow> s
      | Some i \<Rightarrow>
          take i s @ get_substitution p (take i s) (drop (i + length p) s) r
            @ drop (i + length p) s)"

definition digit_char :: "nat \<Rightarrow> char" where
  "digit_char n = ''0123456789'' ! (n mod 10)"

text \<open>A non-negative integer in a template literal.\<close>

fun decimal :: "nat \<Rightarrow> string" where
  "decimal n = (if n < 10 then [digit_char n] else decimal (n div 10) @ [digit_char n])"

declare decimal.simps [simp del]

section \<open>JavaScript values\<close>

text \<open>
  The values the generator works on come from \<^verbatim>\<open>JSON.parse\<close>, and the document the
  converter builds holds strings, numbers, booleans, \<^verbatim>\<open>null\<close>, arrays and plain objects:
  a \<open>json\<close> tree. \<^verbatim>\<open>undefined\<close>, the value of an absent property or argument, is \<open>None\<close> of
  \<open>json option\<close>.

  A number is carried as the text \<^verbatim>\<open>Number.prototype.toString\<close> gives for it
  (\<^verbatim>\<open>4.75\<close>, \<^verbatim>\<open>0\<close>, \<^verbatim>\<open>NaN\<close>, \<^verbatim>\<open>Infinity\<close>): its truthiness, its rendering in a
  template literal and its \<^verbatim>\<open>JSON.stringify\<close> text are all functions of that text. An
  object is the list of its own properties in the order \<^verbatim>\<open>Object.keys\<close> enumerates them.
\<close>

datatype json =
    JNull
  | JBool bool
  | JNum string
  | JStr string
  | JArr "json list"
  | JObj "(string \<times> json) list"

type_synonym jsval = "json option"

text \<open>The exceptions the modelled code can raise.\<close>

datatype error = TypeError | ReadError | SyntaxError

fun truthy :: "json \<Rightarrow> bool" where
  "truthy JNull = False"
| "truthy (JBool b) = b"
| "truthy (JNum n) = (n \<noteq> ''0'' \<and> n \<noteq> ''NaN'')"
| "truthy (JStr s) = (s \<noteq> [])"
| "truthy (JArr xs) = True"
| "truthy (JObj kvs) = True"

definition js_truthy :: "jsval \<Rightarrow> bool" where
  "js_truthy v = (case v of None \<Rightarrow> False | Some j \<Rightarrow> truthy j)"

text \<open>\<^verbatim>\<open>a || b\<close> with a right operand that is always defined.\<close>

definition js_or :: "jsval \<Rightarrow> json \<Rightarrow> json" where
  "js_or a b = (case a of None \<Rightarrow> b | Some v \<Rightarrow> if truthy v then v else b)"

text \<open>
  \<^verbatim>\<open>v.name\<close> on a value that is neither \<^verbatim>\<open>null\<close> nor \<^verbatim>\<open>undefined\<close>, for the property names
  this program reads (\<^verbatim>\<open>metadata\<close>, \<^verbatim>\<open>title\<close>, \<^verbatim>\<open>layout\<close>, \<^verbatim>\<open>objectives\<close>, ...): none of them is an
  index, \<^verbatim>\<open>length\<close> or a method of a prototype, so only an object can have one.
\<close>

fun js_prop :: "json \<Rightarrow> string \<Rightarrow> jsval" where
  "js_prop (JObj kvs) name = map_of kvs name"
| "js_prop v name = None"

text \<open>\<^verbatim>\<open>v.name\<close> on any value: reading a property of \<^verbatim>\<open>null\<close> or \<^verbatim>\<open>undefined\<close> throws.\<close>

fun get_prop :: "jsval \<Rightarrow> string \<Rightarrow> error + jsval" where
  "get_prop None name = Inl TypeError"
| "get_prop (Some JNull) name = Inl TypeError"
| "get_prop (Some v) name = Inr (js_prop v name)"

text \<open>
  \<^verbatim>\<open>ToString\<close>, as a template literal and \<^verbatim>\<open>Array.prototype.join\<close> apply it: an array is
  the comma-joined rendering of its elements, with \<^verbatim>\<open>null\<close> elements empty.
\<close>

fun to_string :: "json \<Rightarrow> string" where
  "to_string JNull = ''null''"
| "to_string (JBool b) = (if b then ''true'' else ''false'')"
| "to_string (JNum n) = n"
| "to_string (JStr s) = s"
| "to_string (JArr xs) = js_join (map (\<lambda>x. if x = JNull then [] else to_string x) xs) '',''"
| "to_string (JObj kvs) = ''[object Object]''"

definition js_to_string :: "jsval \<Rightarrow> string" where
  "js_to_string v = (case v of None \<Rightarrow> ''undefined'' | Some j \<Rightarrow> to_string j)"

subsection \<open>JSON.stringify\<close>

definition hex_digit :: "nat \<Rightarrow> char" where
  "hex_digit n = ''0123456789abcdef'' ! (n mod 16)"

text \<open>\<^verbatim>\<open>QuoteJSONString\<close>, one code unit at a time.\<close>

definition quote_char :: "char \<Rightarrow> string" where
  "quote_char c =
     (if c = CHR 0x08 then [CHR 0x5C, CHR ''b'']
      else if c = CHR 0x09 then [CHR 0x5C, CHR ''t'']
      else if c = CHR 0x0A then [CHR 0x5C, CHR ''n'']
      else if c = CHR 0x0C then [CHR 0x5C, CHR ''f'']
      else if c = CHR 0x0D then [CHR 0x5C, CHR ''r'']
      else if c = CHR 0x22 then [CHR 0x5C, CHR 0x22]
      else if c = CHR 0x5C then [CHR 0x5C, CHR 0x5C]
      else if (of_char c :: nat) < 32
        then CHR 0x5C # ''u00'' @ [hex_digit (of_char c div 16), hex_digit (of_char c)]
      else [c])"

definition json_quote :: "string \<Rightarrow> string" where
  "json_quote s = CHR 0x22 # concat (map quote_char s) @ [CHR 0x22]"

text \<open>
  \<^verbatim>\<open>SerializeJSONProperty\<close> for a gap and the current indentation: with the empty gap
  the compact text, otherwise one member or element to a line.
\<close>

fun serialize :: "string \<Rightarrow> string \<Rightarrow> json \<Rightarrow> string" where
  "serialize gap indent JNull = ''null''"
| "serialize gap indent (JBool b) = (if b then ''true'' else ''false'')"
| "serialize gap indent (JNum n) =
     (if n = ''NaN'' \<or> n = ''Infinity'' \<or> n = ''-Infinity'' then ''null'' else n)"
| "serialize gap indent (JStr s) = json_quote s"
| "serialize gap indent (JArr xs) =
     (let stepback = indent;
          indent = indent @ gap;
          partial = map (serialize gap indent) xs
      in if partial = [] then ''[]''
         else if gap = [] then ''['' @ js_join partial '','' @ '']''
         else ''['' @ [NL] @ indent @ js_join partial ('','' @ [NL] @ indent)
                @ [NL] @ stepback @ '']'')"
| "serialize gap indent (JObj kvs) =
     (let stepback = indent;
          indent = indent @ gap;
          partial = map (\<lambda>kv. json_quote (fst kv) @ '':'' @ (if gap = [] then [] else '' '')
                               @ serialize gap indent (snd kv)) kvs
      in if partial = [] then ''{}''
         else if gap = [] then ''{'' @ js_join partial '','' @ ''}''
         else ''{'' @ [NL] @ indent @ js_join partial ('','' @ [NL] @ indent)
                @ [NL] @ stepback @ ''}'')"

text \<open>\<^verbatim>\<open>JSON.stringify(v)\<close> and \<^verbatim>\<open>JSON.stringify(v, null, 2)\<close>.\<close>

definition JSON_stringify :: "json \<Rightarrow> string" where
  "JSON_stringify v = serialize [] [] v"

definition JSON_stringify_2 :: "json \<Rightarrow> string" where
  "JSON_stringify_2 v = serialize ''  '' [] v"

section \<open>Chapter mapping parser\<close>

record chapter_mapping =
  stateChapter :: "string option"
  title :: string

text \<open>What \<^verbatim>\<open>parseChapterMapping\<close> writes with \<^verbatim>\<open>console.warn\<close>.\<close>

datatype console_event = NoMappingFound string

text \<open>
  \<^verbatim>\<open>row.split('|').map(col => col.trim()).filter(col => col)\<close>: the non-empty trimmed
  cells of a row.
\<close>

definition row_columns :: "string \<Rightarrow> string list" where
  "row_columns row = filter (\<lambda>col. col \<noteq> []) (map js_trim (js_split row ''|''))"

text \<open>The \<^verbatim>\<open>for\<close> loop over the table rows, which returns at the first matching row.\<close>

fun first_matching_row :: "string \<Rightarrow> string list \<Rightarrow> chapter_mapping option" where
  "first_matching_row lChapter [] = None"
| "first_matching_row lChapter (row # rows) =
     (let columns = row_columns row in
      if js_index columns 0 = Some lChapter
      then Some \<lparr>stateChapter = js_index columns 1,
                 title = (case js_index columns 2 of
                            None \<Rightarrow> ''Unknown Chapter''
                          | Some t \<Rightarrow> if t \<noteq> [] then t else ''Unknown Chapter'')\<rparr>
      else first_matching_row lChapter rows)"

definition parseChapterMapping :: "string \<Rightarrow> string \<Rightarrow> console_event list \<times> chapter_mapping" where
  "parseChapterMapping markdownContent lChapter =
     (let lines = js_split markdownContent [NL];
          tableRows = filter (\<lambda>line. js_startsWith (js_trim line) ''|'') lines
      in case first_matching_row lChapter tableRows of
           Some m \<Rightarrow> ([], m)
         | None \<Rightarrow>
             ([NoMappingFound lChapter],
              \<lparr>stateChapter = Some (js_replace lChapter ''L-'' []),
               title = ''Unknown Chapter''\<rparr>))"

text \<open>
  A line is a table row whose first cell is the chapter id: the test the loop makes on
  each line that the filter keeps.
\<close>

definition row_matches :: "string \<Rightarrow> string \<Rightarrow> bool" where
  "row_matches lChapter line =
     (js_startsWith (js_trim line) ''|'' \<and> js_index (row_columns line) 0 = Some lChapter)"

definition row_mapping :: "string \<Rightarrow> chapter_mapping" where
  "row_mapping row =
     \<lparr>stateChapter = js_index (row_columns row) 1,
      title = (case js_index (row_columns row) 2 of
                 None \<Rightarrow> ''Unknown Chapter'' | Some t \<Rightarrow> t)\<rparr>"

text \<open>A mapping document in which the row of \<^verbatim>\<open>L-03\<close> occurs twice.\<close>

definition sample_mapping :: string where
  "sample_mapping =
     ''## Chapters'' @ [NL] @
     ''| L-Chapter | State | Title |'' @ [NL] @
     ''|---|---|---|'' @ [NL] @
     ''| L-03 | 1.3 | Income and Taxes |'' @ [NL] @
     ''| L-04 | 1.4 | Budgeting |'' @ [NL] @
     ''| L-03 | 2.7 | Repeated Row |''"

text \<open>
  The same table with the two rows of \<^verbatim>\<open>L-03\<close> in the other order, and a table whose lines
  end in carriage return and line feed.
\<close>

definition repeated_mapping :: string where
  "repeated_mapping =
     ''| L-03 | 2.7 | Repeated Row |'' @ [NL] @
     ''| L-03 | 1.3 | Income and Taxes |''"

definition crlf_mapping :: string where
  "crlf_mapping =
     ''| L-Chapter | State | Title |'' @ [CHR 0x0D, NL] @
     ''| L-03 | 1.3 | Income and Taxes |'' @ [CHR 0x0D, NL] @
     ''| L-04 | 1.4 | Budgeting |'' @ [CHR 0x0D, NL]"

section \<open>Calculated fields and variable interpolation\<close>

text \<open>
  The formulas of \<^verbatim>\<open>CALCULATED_FIELDS\<close> compute with IEEE-754 doubles: \<^verbatim>\<open>parseFloat\<close>,
  \<^verbatim>\<open>*\<close>, \<^verbatim>\<open>/\<close>, \<^verbatim>\<open>+\<close> and \<^verbatim>\<open>toFixed\<close>. The arithmetic is a parameter of the model, a
  record of these operations over a type \<open>'n\<close> of numbers, so that the formulas keep the
  shape they have in the source and every theorem about the interpolation holds whatever
  the arithmetic returns. The binary64 arithmetic of the program is the instance
  \<open>ieee_ops\<close> of the next section.
\<close>

record 'n float_ops =
  parseFloat :: "json \<Rightarrow> 'n"
  of_literal :: "nat \<Rightarrow> 'n"
  fmul :: "'n \<Rightarrow> 'n \<Rightarrow> 'n"
  fdiv :: "'n \<Rightarrow> 'n \<Rightarrow> 'n"
  fadd :: "'n \<Rightarrow> 'n \<Rightarrow> 'n"
  toFixed :: "'n \<Rightarrow> nat \<Rightarrow> string"

text \<open>The state variable set: the properties of the parsed state document.\<close>

type_synonym state_vars = "(string \<times> json) list"

definition CALCULATED_STATE_TAX_MONTHLY :: "'n float_ops \<Rightarrow> state_vars \<Rightarrow> 'n \<Rightarrow> string" where
  "CALCULATED_STATE_TAX_MONTHLY ops vars baseAmount =
     (let rate = parseFloat ops (js_or (map_of vars ''INCOME_TAX_RATE'') (JNum ''0''))
      in ''$'' @ toFixed ops (fdiv ops (fmul ops baseAmount rate) (of_literal ops 100)) 2)"

definition CALCULATED_LOCAL_TAX_MONTHLY :: "'n float_ops \<Rightarrow> state_vars \<Rightarrow> 'n \<Rightarrow> string" where
  "CALCULATED_LOCAL_TAX_MONTHLY ops vars baseAmount =
     (let rate = parseFloat ops (js_or (map_of vars ''LOCAL_INCOME_TAX'') (JNum ''0''))
      in ''$'' @ toFixed ops (fdiv ops (fmul ops baseAmount rate) (of_literal ops 100)) 2)"

definition CALCULATED_SDI_MONTHLY :: "'n float_ops \<Rightarrow> state_vars \<Rightarrow> 'n \<Rightarrow> string" where
  "CALCULATED_SDI_MONTHLY ops vars baseAmount =
     (let rate = parseFloat ops (js_or (map_of vars ''SDI_RATE'') (JNum ''0''))
      in ''$'' @ toFixed ops (fdiv ops (fmul ops baseAmount rate) (of_literal ops 100)) 2)"

definition CALCULATED_TOTAL_STATE_DEDUCTIONS :: "'n float_ops \<Rightarrow> state_vars \<Rightarrow> 'n \<Rightarrow> string" where
  "CALCULATED_TOTAL_STATE_DEDUCTIONS ops vars baseAmount =
     (let stateRate = parseFloat ops (js_or (map_of vars ''INCOME_TAX_RATE'') (JNum ''0''));
          localRate = parseFloat ops (js_or (map_of vars ''LOCAL_INCOME_TAX'') (JNum ''0''));
          sdiRate = parseFloat ops (js_or (map_of vars ''SDI_RATE'') (JNum ''0''));
          total = fdiv ops (fmul ops baseAmount (fadd ops (fadd ops stateRate localRate) sdiRate))
                    (of_literal ops 100)
      in ''$'' @ toFixed ops total 2)"

text \<open>The table, in the order \<^verbatim>\<open>Object.keys(CALCULATED_FIELDS)\<close> enumerates it.\<close>

definition CALCULATED_FIELDS ::
  "'n float_ops \<Rightarrow> (string \<times> (state_vars \<Rightarrow> 'n \<Rightarrow> string)) list" where
  "CALCULATED_FIELDS ops =
     [(''CALCULATED_STATE_TAX_MONTHLY'', CALCULATED_STATE_TAX_MONTHLY ops),
      (''CALCULATED_LOCAL_TAX_MONTHLY'', CALCULATED_LOCAL_TAX_MONTHLY ops),
      (''CALCULATED_SDI_MONTHLY'', CALCULATED_SDI_MONTHLY ops),
      (''CALCULATED_TOTAL_STATE_DEDUCTIONS'', CALCULATED_TOTAL_STATE_DEDUCTIONS ops)]"

definition CALCULATED_FIELD_NAMES :: "string list" where
  "CALCULATED_FIELD_NAMES =
     [''CALCULATED_STATE_TAX_MONTHLY'', ''CALCULATED_LOCAL_TAX_MONTHLY'',
      ''CALCULATED_SDI_MONTHLY'', ''CALCULATED_TOTAL_STATE_DEDUCTIONS'']"

text \<open>
  An arithmetic for closed examples in which no calculated value reaches the result: it
  has a single number.
\<close>

definition unit_ops :: "unit float_ops" where
  "unit_ops =
     \<lparr>parseFloat = (\<lambda>v. ()), of_literal = (\<lambda>n. ()), fmul = (\<lambda>a b. ()), fdiv = (\<lambda>a b. ()),
      fadd = (\<lambda>a b. ()), toFixed = (\<lambda>x digits. ''NaN'')\<rparr>"

text \<open>
  The text a state variable is shown as: a number by \<^verbatim>\<open>toString\<close>, a boolean as
  \<^verbatim>\<open>Yes\<close> or \<^verbatim>\<open>No\<close>, \<^verbatim>\<open>null\<close> and \<^verbatim>\<open>undefined\<close> as \<^verbatim>\<open>N/A\<close>; any other value is handed to
  \<^verbatim>\<open>join\<close> as it is, which converts it to a string.
\<close>

definition display_value :: "jsval \<Rightarrow> string" where
  "display_value v =
     (case v of
        Some (JNum n) \<Rightarrow> n
      | Some (JBool b) \<Rightarrow> (if b then ''Yes'' else ''No'')
      | Some JNull \<Rightarrow> ''N/A''
      | None \<Rightarrow> ''N/A''
      | Some other \<Rightarrow> to_string other)"

text \<open>\<^verbatim>\<open>result.split(placeholder).join(text)\<close>.\<close>

definition replace_placeholder :: "string \<Rightarrow> string \<Rightarrow> string \<Rightarrow> string" where
  "replace_placeholder result placeholder text = js_join (js_split result placeholder) text"

definition placeholder_of :: "string \<Rightarrow> string" where
  "placeholder_of name = ''{{'' @ name @ ''}}''"

text \<open>The first \<^verbatim>\<open>forEach\<close>: one pass over the text for each key of the state variables.\<close>

definition replace_state_variables :: "state_vars \<Rightarrow> string \<Rightarrow> string" where
  "replace_state_variables stateVars template =
     foldl (\<lambda>result key.
              replace_placeholder result (placeholder_of key) (display_value (map_of stateVars key)))
       template (map fst stateVars)"

text \<open>The second \<^verbatim>\<open>forEach\<close>: each formula is called with the default base amount 4000.\<close>

definition replace_calculated_fields :: "'n float_ops \<Rightarrow> state_vars \<Rightarrow> string \<Rightarrow> string" where
  "replace_calculated_fields ops stateVars template =
     foldl (\<lambda>result field.
              replace_placeholder result (placeholder_of (fst field))
                ((snd field) stateVars (of_literal ops 4000)))
       template (CALCULATED_FIELDS ops)"

text \<open>
  The metadata placeholders: \<^verbatim>\<open>replace\<close> with a string pattern changes the first
  occurrence only, and converts a replacement that is not a string by \<^verbatim>\<open>ToString\<close>.
\<close>

definition replace_metadata :: "jsval \<Rightarrow> string \<Rightarrow> string" where
  "replace_metadata contentData template =
     (case contentData of
        None \<Rightarrow> template
      | Some cd \<Rightarrow>
          if truthy cd \<and> js_truthy (js_prop cd ''metadata'')
          then let metadata = js_or (js_prop cd ''metadata'') JNull;
                   result = js_replace template ''{{CHAPTER_TITLE}}''
                              (to_string (js_or (js_prop metadata ''title'') (JStr [])))
               in js_replace result ''{{CHAPTER_SUBTITLE}}''
                    (to_string (js_or (js_prop metadata ''subtitle'') (JStr [])))
          else template)"

definition interpolateVariables :: "'n float_ops \<Rightarrow> jsval \<Rightarrow> state_vars \<Rightarrow> jsval \<Rightarrow> json" where
  "interpolateVariables ops template stateVars contentData =
     (case template of
        Some (JStr t) \<Rightarrow>
          if t = [] then js_or template (JStr [])
          else JStr (replace_metadata contentData
                       (replace_calculated_fields ops stateVars
                          (replace_state_variables stateVars t)))
      | other \<Rightarrow> js_or template (JStr []))"

section \<open>IEEE-754 arithmetic of the calculated fields\<close>

text \<open>
  A JavaScript number is a binary64 value: not-a-number, an infinity with its sign, or a
  finite number, carried here as the rational it denotes. The two zeros are one value: the
  formulas never divide by a computed number (the divisor is the literal 100), and
  \<^verbatim>\<open>toFixed\<close> prints both zeros alike, so the sign of a zero is never observed.
\<close>

datatype double = NaN | Infinite bool | Finite rat

text \<open>The number of binary digits of a positive integer.\<close>

function bit_length :: "int \<Rightarrow> int" where
  "bit_length n = (if n \<le> 0 then 0 else bit_length (n div 2) + 1)"
  by auto
termination
  by (relation "measure nat") auto

declare bit_length.simps [simp del]

text \<open>
  The binary exponent of a positive rational \<open>a\<close>: the \<open>e\<close> with \<open>2\<^sup>e \<le> a < 2\<^sup>e\<^sup>+\<^sup>1\<close>. The
  difference of the bit lengths of numerator and denominator is \<open>e\<close> or \<open>e + 1\<close>.
\<close>

definition ilog2 :: "rat \<Rightarrow> int" where
  "ilog2 a =
     (let e = bit_length (fst (quotient_of a)) - bit_length (snd (quotient_of a))
      in if 2 powi e \<le> a then e else e - 1)"

text \<open>Rounding to the nearest integer, a tie going to the even one.\<close>

definition round_half_even :: "rat \<Rightarrow> int" where
  "round_half_even x =
     (let f = \<lfloor>x\<rfloor>; d = x - of_int f
      in if d < 1 / 2 then f else if 1 / 2 < d then f + 1 else if even f then f else f + 1)"

text \<open>
  The binary64 value of a real result (round to nearest, ties to even): the significand
  has 53 bits, so the last place of a number of exponent \<open>e\<close> is \<open>2\<^sup>e\<^sup>-\<^sup>5\<^sup>2\<close>, and not below
  \<open>2\<^sup>-\<^sup>1\<^sup>0\<^sup>7\<^sup>4\<close>, the last place of the subnormal numbers; a result that rounds to \<open>2\<^sup>1\<^sup>0\<^sup>2\<^sup>4\<close> or
  more, which is one whose binary exponent reaches 1024, is an infinity.
\<close>

definition round_double :: "rat \<Rightarrow> double" where
  "round_double r =
     (if r = 0 then Finite 0
      else
        let a = \<bar>r\<bar>;
            q = max (ilog2 a - 52) (- 1074);
            v = of_int (round_half_even (a / 2 powi q)) * 2 powi q
        in if 1024 \<le> ilog2 v then Infinite (r < 0) else Finite (if r < 0 then - v else v))"

text \<open>
  \<^verbatim>\<open>x * y\<close>, \<^verbatim>\<open>x / y\<close> and \<^verbatim>\<open>x + y\<close>: the exact result, rounded. The boolean of an infinity
  says that it is negative. A zero divisor stands for the positive zero.
\<close>

fun double_mul :: "double \<Rightarrow> double \<Rightarrow> double" where
  "double_mul NaN y = NaN"
| "double_mul x NaN = NaN"
| "double_mul (Infinite s) (Infinite t) = Infinite (s \<noteq> t)"
| "double_mul (Infinite s) (Finite b) = (if b = 0 then NaN else Infinite (s \<noteq> (b < 0)))"
| "double_mul (Finite a) (Infinite t) = (if a = 0 then NaN else Infinite ((a < 0) \<noteq> t))"
| "double_mul (Finite a) (Finite b) = round_double (a * b)"

fun double_div :: "double \<Rightarrow> double \<Rightarrow> double" where
  "double_div NaN y = NaN"
| "double_div x NaN = NaN"
| "double_div (Infinite s) (Infinite t) = NaN"
| "double_div (Infinite s) (Finite b) = Infinite (s \<noteq> (b < 0))"
| "double_div (Finite a) (Infinite t) = Finite 0"
| "double_div (Finite a) (Finite b) =
     (if b = 0 then (if a = 0 then NaN else Infinite (a < 0)) else round_double (a / b))"

fun double_add :: "double \<Rightarrow> double \<Rightarrow> double" where
  "double_add NaN y = NaN"
| "double_add x NaN = NaN"
| "double_add (Infinite s) (Infinite t) = (if s = t then Infinite s else NaN)"
| "double_add (Infinite s) (Finite b) = Infinite s"
| "double_add (Finite a) (Infinite t) = Infinite t"
| "double_add (Finite a) (Finite b) = round_double (a + b)"

subsection \<open>parseFloat\<close>

definition is_digit :: "char \<Rightarrow> bool" where
  "is_digit c = (48 \<le> (of_char c :: nat) \<and> (of_char c :: nat) \<le> 57)"

text \<open>The integer a run of decimal digits denotes.\<close>

definition digits_value :: "string \<Rightarrow> int" where
  "digits_value ds = foldl (\<lambda>n c. 10 * n + (of_char c - 48)) 0 ds"

text \<open>
  The exponent part at the head of a text: \<^verbatim>\<open>e\<close> or \<^verbatim>\<open>E\<close>, an optional sign and at least one
  digit. Without a digit there is no exponent part and the exponent is 0.
\<close>

definition exponent_part :: "string \<Rightarrow> int" where
  "exponent_part s =
     (if s \<noteq> [] \<and> (hd s = CHR ''e'' \<or> hd s = CHR ''E'')
      then let t = tl s;
               neg = (t \<noteq> [] \<and> hd t = CHR ''-'');
               u = (if t \<noteq> [] \<and> (hd t = CHR ''-'' \<or> hd t = CHR ''+'') then tl t else t);
               ds = takeWhile is_digit u
           in if ds = [] then 0 else if neg then - digits_value ds else digits_value ds
      else 0)"

text \<open>
  \<^verbatim>\<open>parseFloat\<close> of a string: leading white space is skipped, and the longest prefix that
  is a decimal literal (an optional sign, then \<^verbatim>\<open>Infinity\<close>, or digits with an optional
  fraction and an optional exponent part, or a fraction that starts with the point) gives
  the number; a text with no such prefix gives \<^verbatim>\<open>NaN\<close>.
\<close>

definition js_parseFloat :: "string \<Rightarrow> double" where
  "js_parseFloat input =
     (let s = dropWhile js_is_space input;
          neg = (s \<noteq> [] \<and> hd s = CHR ''-'');
          t = (if s \<noteq> [] \<and> (hd s = CHR ''-'' \<or> hd s = CHR ''+'') then tl s else s)
      in if prefix ''Infinity'' t then Infinite neg
         else
           let whole = takeWhile is_digit t;
               t1 = dropWhile is_digit t;
               frac = (if t1 \<noteq> [] \<and> hd t1 = CHR ''.'' then takeWhile is_digit (tl t1) else []);
               t2 = (if t1 \<noteq> [] \<and> hd t1 = CHR ''.'' then dropWhile is_digit (tl t1) else t1)
           in if whole = [] \<and> frac = [] then NaN
              else
                let mv = of_int (digits_value (whole @ frac))
                           * 10 powi (exponent_part t2 - int (length frac))
                in round_double (if neg then - mv else mv))"

subsection \<open>toFixed\<close>

text \<open>The decimal digits of a non-negative integer.\<close>

function decimal_of_int :: "int \<Rightarrow> string" where
  "decimal_of_int n =
     (if n < 10 then [digit_char (nat n)]
      else decimal_of_int (n div 10) @ [digit_char (nat (n mod 10))])"
  by auto
termination
  by (relation "measure nat") auto

declare decimal_of_int.simps [simp del]

text \<open>
  \<^verbatim>\<open>Number::toString\<close> for a finite number \<open>a\<close> of at least \<open>10\<^sup>2\<^sup>1\<close>, which is an integer of
  \<open>n\<close> digits: the fewest digits \<open>k\<close> for which some integer \<open>c\<close> of \<open>k\<close> digits, followed by
  \<open>n - k\<close> zeros, rounds to \<open>a\<close>; among such \<open>c\<close> the one nearest to \<open>a\<close>. Only the two integers
  around \<open>a / 10\<^sup>n\<^sup>-\<^sup>k\<close> can be nearest. The text is the first digit, the point and the other
  digits if there are any, and the exponent.
\<close>

definition digits_candidates :: "rat \<Rightarrow> nat \<Rightarrow> nat \<Rightarrow> int list" where
  "digits_candidates a n k =
     (let scale = 10 ^ (n - k);
          lo = \<lfloor>a / scale\<rfloor>;
          valid = filter (\<lambda>c. round_double (of_int c * scale) = Finite a) [lo, lo + 1]
      in case valid of
           [c, d] \<Rightarrow>
             (if \<bar>of_int c * scale - a\<bar> < \<bar>of_int d * scale - a\<bar> then [c]
              else if \<bar>of_int d * scale - a\<bar> < \<bar>of_int c * scale - a\<bar> then [d]
              else if even c then [c] else [d])
         | other \<Rightarrow> other)"

fun shortest_digits :: "rat \<Rightarrow> nat \<Rightarrow> nat list \<Rightarrow> (nat \<times> int) option" where
  "shortest_digits a n [] = None"
| "shortest_digits a n (k # ks) =
     (case digits_candidates a n k of
        c # cs \<Rightarrow> Some (k, c)
      | [] \<Rightarrow> shortest_digits a n ks)"

definition large_to_string :: "rat \<Rightarrow> string" where
  "large_to_string a =
     (let n = length (decimal_of_int \<lfloor>a\<rfloor>)
      in case shortest_digits a n [1 ..< 18] of
           None \<Rightarrow> decimal_of_int \<lfloor>a\<rfloor>
         | Some (k, c) \<Rightarrow>
             let ds = (if c = 10 ^ k then ''1'' else decimal_of_int c);
                 e = (if c = 10 ^ k then n else n - 1)
             in (if length ds = 1 then ds else hd ds # ''.'' @ tl ds) @ ''e+'' @ decimal e)"

text \<open>
  The integer \<open>n\<close> of \<^verbatim>\<open>toFixed\<close>: the one for which \<open>n / 10\<^sup>f\<close> is nearest to \<open>a\<close>, the larger
  one of two.
\<close>

definition fixed_digits :: "rat \<Rightarrow> nat \<Rightarrow> int" where
  "fixed_digits a f = \<lfloor>a * 10 ^ f + 1 / 2\<rfloor>"

text \<open>
  \<^verbatim>\<open>x.toFixed(f)\<close>: a number that is not finite is printed by name; a finite one gets its
  sign, and then, from \<open>10\<^sup>2\<^sup>1\<close> on, the text of \<^verbatim>\<open>toString\<close>, and below it the digits of
  \<open>n\<close>, filled with zeros to \<open>f + 1\<close> digits, with the point before the last \<open>f\<close>.
\<close>

definition double_toFixed :: "double \<Rightarrow> nat \<Rightarrow> string" where
  "double_toFixed x f =
     (case x of
        NaN \<Rightarrow> ''NaN''
      | Infinite neg \<Rightarrow> (if neg then ''-Infinity'' else ''Infinity'')
      | Finite r \<Rightarrow>
          (if r < 0 then ''-'' else [])
          @ (if 10 ^ 21 \<le> \<bar>r\<bar> then large_to_string \<bar>r\<bar>
             else
               let m = decimal_of_int (fixed_digits \<bar>r\<bar> f)
               in if f = 0 then m
                  else
                    let m = (if length m \<le> f then replicate (f + 1 - length m) (CHR ''0'') @ m
                             else m);
                        k = length m
                    in take (k - f) m @ ''.'' @ drop (k - f) m))"

text \<open>
  The arithmetic of the generator: \<^verbatim>\<open>parseFloat\<close> converts its argument to a string
  first, and a numeric literal denotes the binary64 value nearest to it.
\<close>

definition ieee_ops :: "double float_ops" where
  "ieee_ops =
     \<lparr>parseFloat = (\<lambda>v. js_parseFloat (to_string v)),
      of_literal = (\<lambda>n. round_double (of_nat n)),
      fmul = double_mul, fdiv = double_div, fadd = double_add, toFixed = double_toFixed\<rparr>"

text \<open>State variables in which the three rates have the same text.\<close>

definition same_rates :: "string \<Rightarrow> state_vars" where
  "same_rates r =
     [(''INCOME_TAX_RATE'', JStr r), (''LOCAL_INCOME_TAX'', JStr r), (''SDI_RATE'', JStr r)]"

subsection \<open>Rates and amounts\<close>

text \<open>The rate a calculated field reads: \<^verbatim>\<open>parseFloat(vars.NAME || 0)\<close>.\<close>

definition rate_of :: "state_vars \<Rightarrow> string \<Rightarrow> double" where
  "rate_of vars name = parseFloat ieee_ops (js_or (map_of vars name) (JNum ''0''))"

text \<open>
  A number text with two decimals: an optional minus sign, at least one digit, the point
  and two digits. A currency text is a dollar sign followed by such a text.
\<close>

definition two_decimals :: "string \<Rightarrow> bool" where
  "two_decimals s =
     (let t = (if s \<noteq> [] \<and> hd s = CHR ''-'' then tl s else s);
          whole = takeWhile is_digit t;
          rest = dropWhile is_digit t
      in whole \<noteq> [] \<and> length rest = 3 \<and> hd rest = CHR ''.'' \<and> list_all is_digit (tl rest))"

definition is_currency :: "string \<Rightarrow> bool" where
  "is_currency s = (s \<noteq> [] \<and> hd s = CHR ''$'' \<and> two_decimals (tl s))"

text \<open>
  The amount of a currency text in cents: its digits read as one number, negated when the
  text has a minus sign.
\<close>

definition cents_of_amount :: "string \<Rightarrow> int" where
  "cents_of_amount s =
     (if CHR ''-'' \<in> set s then - digits_value (filter is_digit s)
      else digits_value (filter is_digit s))"

section \<open>Layout renderers\<close>

text \<open>
  A renderer returns the HTML fragment, or the exception that leaves it: the renderers
  read properties of the list elements and call \<^verbatim>\<open>forEach\<close> on list fields, and both throw
  a \<^verbatim>\<open>TypeError\<close> on a value of the wrong shape.
\<close>

definition and_then :: "error + 'a \<Rightarrow> ('a \<Rightarrow> error + 'b) \<Rightarrow> error + 'b" where
  "and_then r f = (case r of Inl e \<Rightarrow> Inl e | Inr x \<Rightarrow> f x)"

text \<open>The body of a \<^verbatim>\<open>forEach\<close> that appends to the fragment, run over the elements in order.\<close>

fun append_each :: "(json \<Rightarrow> error + string) \<Rightarrow> json list \<Rightarrow> error + string" where
  "append_each f [] = Inr []"
| "append_each f (x # xs) =
     and_then (f x) (\<lambda>s. and_then (append_each f xs) (\<lambda>t. Inr (s @ t)))"

text \<open>
  \<^verbatim>\<open>v.forEach(f)\<close> on a truthy value: only an array has the method; on a number, a
  string, \<^verbatim>\<open>true\<close> or an object the call throws.
\<close>

definition forEach_html :: "jsval \<Rightarrow> (json \<Rightarrow> error + string) \<Rightarrow> error + string" where
  "forEach_html v f = (case v of Some (JArr xs) \<Rightarrow> append_each f xs | other \<Rightarrow> Inl TypeError)"

text \<open>\<^verbatim>\<open>interpolateVariables(v, stateVars, null)\<close> inside a template literal.\<close>

definition interpolated :: "'n float_ops \<Rightarrow> state_vars \<Rightarrow> jsval \<Rightarrow> string" where
  "interpolated ops stateVars v = to_string (interpolateVariables ops v stateVars (Some JNull))"

definition objective_item :: "'n float_ops \<Rightarrow> state_vars \<Rightarrow> json \<Rightarrow> error + string" where
  \<open>objective_item ops stateVars obj =
     and_then (get_prop (Some obj) ''number'') (\<lambda>number.
       Inr (''  <div class="objective-item">\<newline>''
          @ ''    <div class="objective-number">'' @ js_to_string number @ ''</div>\<newline>''
          @ ''    <div class="objective-content">\<newline>''
          @ ''      <div class="objective-verb">''
              @ interpolated ops stateVars (js_prop obj ''verb'') @ ''</div>\<newline>''
          @ ''      <div class="objective-description">''
              @ interpolated ops stateVars (js_prop obj ''description'') @ ''</div>\<newline>''
          @ ''    </div>\<newline>''
          @ ''  </div>\<newline>''))\<close>

definition generateObjectivesLayout :: "'n float_ops \<Rightarrow> json \<Rightarrow> state_vars \<Rightarrow> error + string" where
  \<open>generateObjectivesLayout ops data stateVars =
     and_then (get_prop (Some data) ''objectives'') (\<lambda>objectives.
     and_then (if js_truthy objectives
               then forEach_html objectives (objective_item ops stateVars) else Inr []) (\<lambda>items.
       Inr (''<div class="objectives-expanded">\<newline>'' @ items @ ''</div>\<newline>'')))\<close>

definition vocab_card :: "'n float_ops \<Rightarrow> state_vars \<Rightarrow> json \<Rightarrow> error + string" where
  \<open>vocab_card ops stateVars term =
     and_then (get_prop (Some term) ''term'') (\<lambda>name.
       Inr (''  <div class="vocab-card">\<newline>''
          @ ''    <div class="vocab-term">'' @ interpolated ops stateVars name @ ''</div>\<newline>''
          @ ''    <div class="vocab-definition">''
              @ interpolated ops stateVars (js_prop term ''definition'') @ ''</div>\<newline>''
          @ ''  </div>\<newline>''))\<close>

definition generateVocabLayout :: "'n float_ops \<Rightarrow> json \<Rightarrow> state_vars \<Rightarrow> error + string" where
  \<open>generateVocabLayout ops data stateVars =
     and_then (get_prop (Some data) ''terms'') (\<lambda>terms.
     and_then (if js_truthy terms
               then forEach_html terms (vocab_card ops stateVars) else Inr []) (\<lambda>cards.
       Inr (''<div class="vocab-container">\<newline>'' @ cards @ ''</div>\<newline>'')))\<close>

definition list_item :: "string \<Rightarrow> 'n float_ops \<Rightarrow> state_vars \<Rightarrow> json \<Rightarrow> error + string" where
  \<open>list_item pad ops stateVars item =
     Inr (pad @ ''<li>'' @ interpolated ops stateVars (Some item) @ ''</li>\<newline>'')\<close>

definition comparison_column :: "'n float_ops \<Rightarrow> state_vars \<Rightarrow> json \<Rightarrow> error + string" where
  \<open>comparison_column ops stateVars col =
     and_then (get_prop (Some col) ''header'') (\<lambda>header.
     and_then (if js_truthy (js_prop col ''items'')
               then forEach_html (js_prop col ''items'') (list_item ''      '' ops stateVars)
               else Inr []) (\<lambda>items.
       Inr (''  <div class="comparison-column">\<newline>''
          @ ''    <div class="comparison-header">''
              @ interpolated ops stateVars header @ ''</div>\<newline>''
          @ ''    <ul class="comparison-list">\<newline>''
          @ items
          @ ''    </ul>\<newline>''
          @ ''  </div>\<newline>'')))\<close>

definition generateComparisonLayout :: "'n float_ops \<Rightarrow> json \<Rightarrow> state_vars \<Rightarrow> error + string" where
  \<open>generateComparisonLayout ops data stateVars =
     and_then (get_prop (Some data) ''columns'') (\<lambda>columns.
     and_then (if js_truthy columns
               then forEach_html columns (comparison_column ops stateVars) else Inr []) (\<lambda>cols.
       Inr (''<div class="comparison-grid">\<newline>'' @ cols @ ''</div>\<newline>'')))\<close>

definition generateScenarioLayout :: "'n float_ops \<Rightarrow> json \<Rightarrow> state_vars \<Rightarrow> error + string" where
  \<open>generateScenarioLayout ops data stateVars =
     and_then (get_prop (Some data) ''title'') (\<lambda>title.
       let description = js_prop data ''description'';
           highlightBox = js_prop data ''highlightBox''
       in Inr (''<div class="scenario-layout">\<newline>''
          @ (if js_truthy title
             then ''  <h2>'' @ interpolated ops stateVars title @ ''</h2>\<newline>'' else [])
          @ (if js_truthy description
             then ''  <p class="scenario-description">''
                    @ interpolated ops stateVars description @ ''</p>\<newline>''
             else [])
          @ (if js_truthy highlightBox
             then ''  <div class="highlight-box">\<newline>''
                @ ''    <span class="highlight-icon">''
                    @ js_to_string (js_prop (js_or highlightBox JNull) ''icon'') @ ''</span>\<newline>''
                @ ''    <span class="highlight-text">''
                    @ interpolated ops stateVars (js_prop (js_or highlightBox JNull) ''text'')
                    @ ''</span>\<newline>''
                @ ''  </div>\<newline>''
             else [])
          @ ''</div>\<newline>''))\<close>

definition takeaway_card :: "'n float_ops \<Rightarrow> state_vars \<Rightarrow> json \<Rightarrow> error + string" where
  \<open>takeaway_card ops stateVars item =
     and_then (get_prop (Some item) ''icon'') (\<lambda>icon.
       Inr (''  <div class="takeaway-card">\<newline>''
          @ ''    <div class="takeaway-icon">'' @ js_to_string icon @ ''</div>\<newline>''
          @ ''    <div class="takeaway-text">''
              @ interpolated ops stateVars (js_prop item ''text'') @ ''</div>\<newline>''
          @ ''  </div>\<newline>''))\<close>

definition generateTakeawayLayout :: "'n float_ops \<Rightarrow> json \<Rightarrow> state_vars \<Rightarrow> error + string" where
  \<open>generateTakeawayLayout ops data stateVars =
     and_then (get_prop (Some data) ''takeaways'') (\<lambda>takeaways.
     and_then (if js_truthy takeaways
               then forEach_html takeaways (takeaway_card ops stateVars) else Inr []) (\<lambda>cards.
       Inr (''<div class="takeaway-grid">\<newline>'' @ cards @ ''</div>\<newline>'')))\<close>

definition paycheck_line :: "'n float_ops \<Rightarrow> state_vars \<Rightarrow> json \<Rightarrow> error + string" where
  \<open>paycheck_line ops stateVars line =
     and_then (get_prop (Some line) ''type'') (\<lambda>type.
       let lineClass = js_or type (JStr []);
           isStateVar = (if js_truthy (js_prop line ''isStateVariable'')
                         then '' data-state-variable="true"'' else [])
       in Inr (''  <div class="paycheck-line '' @ to_string lineClass @ ''"'' @ isStateVar
                 @ ''>\<newline>''
          @ ''    <span class="label">''
              @ interpolated ops stateVars (js_prop line ''label'') @ ''</span>\<newline>''
          @ ''    <span class="amount">''
              @ interpolated ops stateVars (js_prop line ''amount'') @ ''</span>\<newline>''
          @ ''  </div>\<newline>''))\<close>

definition generatePaycheckLayout :: "'n float_ops \<Rightarrow> json \<Rightarrow> state_vars \<Rightarrow> error + string" where
  \<open>generatePaycheckLayout ops data stateVars =
     and_then (get_prop (Some data) ''lines'') (\<lambda>lines.
     and_then (if js_truthy lines
               then forEach_html lines (paycheck_line ops stateVars) else Inr []) (\<lambda>rows.
       Inr (''<div class="paycheck-breakdown">\<newline>''
          @ ''  <h3>Monthly Paycheck Breakdown</h3>\<newline>''
          @ rows @ ''</div>\<newline>'')))\<close>

definition generateBulletListLayout :: "'n float_ops \<Rightarrow> json \<Rightarrow> state_vars \<Rightarrow> error + string" where
  \<open>generateBulletListLayout ops data stateVars =
     and_then (get_prop (Some data) ''items'') (\<lambda>items.
     and_then (if js_truthy items
               then and_then (forEach_html items (list_item ''    '' ops stateVars))
                      (\<lambda>lis. Inr (''  <ul>\<newline>'' @ lis @ ''  </ul>\<newline>''))
               else Inr []) (\<lambda>list.
       Inr (''<div class="bullet-list-full">\<newline>'' @ list @ ''</div>\<newline>'')))\<close>

text \<open>The fallback for unknown layouts: the data as pretty-printed JSON in a \<^verbatim>\<open>pre\<close> block.\<close>

definition generateGenericLayout :: "json \<Rightarrow> state_vars \<Rightarrow> string" where
  \<open>generateGenericLayout data stateVars =
     ''<div class="generic-content">\<newline>''
     @ ''  <pre>'' @ JSON_stringify_2 data @ ''</pre>\<newline>''
     @ ''</div>\<newline>''\<close>

definition generateLayoutContent :: "'n float_ops \<Rightarrow> jsval \<Rightarrow> state_vars \<Rightarrow> error + string" where
  "generateLayoutContent ops content stateVars =
     (if \<not> js_truthy content \<or> \<not> js_truthy (js_prop (js_or content JNull) ''layout'') then Inr []
      else
        let layoutData = js_or (js_prop (js_or content JNull) ''layoutData'') (JObj []);
            layout = js_prop (js_or content JNull) ''layout''
        in if layout = Some (JStr ''objectives-expanded'')
             then generateObjectivesLayout ops layoutData stateVars
           else if layout = Some (JStr ''vocab-container'')
             then generateVocabLayout ops layoutData stateVars
           else if layout = Some (JStr ''comparison-grid'')
             then generateComparisonLayout ops layoutData stateVars
           else if layout = Some (JStr ''scenario-layout'')
             then generateScenarioLayout ops layoutData stateVars
           else if layout = Some (JStr ''takeaway-grid'')
             then generateTakeawayLayout ops layoutData stateVars
           else if layout = Some (JStr ''paycheck-breakdown'')
             then generatePaycheckLayout ops layoutData stateVars
           else if layout = Some (JStr ''bullet-list-full'')
             then generateBulletListLayout ops layoutData stateVars
           else Inr (generateGenericLayout layoutData stateVars))"

text \<open>The seven layout names of the \<^verbatim>\<open>switch\<close>.\<close>

definition named_layouts :: "string list" where
  "named_layouts =
     [''objectives-expanded'', ''vocab-container'', ''comparison-grid'', ''scenario-layout'',
      ''takeaway-grid'', ''paycheck-breakdown'', ''bullet-list-full'']"

section \<open>Placeholder scanning\<close>

text \<open>The character class \<^verbatim>\<open>[A-Z_]\<close>.\<close>

definition is_upper_us :: "char \<Rightarrow> bool" where
  "is_upper_us c = ((65 \<le> (of_char c :: nat) \<and> (of_char c :: nat) \<le> 90) \<or> c = CHR ''_'')"

text \<open>
  The regular expression \<^verbatim>\<open>\{\{([A-Z_]+)\}\}\<close> tried at the start of a text: the captured
  name, when it matches. The class holds neither brace, so the greedy run of \<^verbatim>\<open>[A-Z_]\<close> is
  the only candidate for the name.
\<close>

definition match_placeholder :: "string \<Rightarrow> string option" where
  "match_placeholder s =
     (if prefix ''{{'' s
      then let name = takeWhile is_upper_us (drop 2 s)
           in if name \<noteq> [] \<and> prefix ''}}'' (dropWhile is_upper_us (drop 2 s))
              then Some name else None
      else None)"

text \<open>
  The global search (\<^verbatim>\<open>exec\<close> in a loop, or \<^verbatim>\<open>match\<close> with the \<^verbatim>\<open>g\<close> flag): the names of
  all matches from left to right, each search starting where the previous match ended.
\<close>

fun placeholder_names :: "string \<Rightarrow> string list" where
  "placeholder_names [] = []"
| "placeholder_names (c # cs) =
     (case match_placeholder (c # cs) of
        Some name \<Rightarrow> name # placeholder_names (drop (length name + 4) (c # cs))
      | None \<Rightarrow> placeholder_names cs)"

text \<open>A \<^verbatim>\<open>Set\<close> filled from a list: the distinct elements in the order of first insertion.\<close>

definition js_Set :: "'a list \<Rightarrow> 'a list" where
  "js_Set xs = foldl (\<lambda>acc x. if x \<in> set acc then acc else acc @ [x]) [] xs"

text \<open>
  \<^verbatim>\<open>new Set(v)\<close> on a truthy value: the elements of an array, the characters of a string;
  a number, \<^verbatim>\<open>true\<close> or an object is not iterable and the constructor throws.
\<close>

fun new_Set :: "json \<Rightarrow> error + json list" where
  "new_Set (JArr xs) = Inr (js_Set xs)"
| "new_Set (JStr s) = Inr (js_Set (map (\<lambda>c. JStr [c]) s))"
| "new_Set v = Inl TypeError"

section \<open>Content document validator\<close>

text \<open>
  The two lists the validator fills. They are kept up to the point where the function
  returns or an exception reaches its \<^verbatim>\<open>catch\<close>.
\<close>

record report =
  errors :: "string list"
  warnings :: "string list"

text \<open>\<^verbatim>\<open>Array.isArray\<close>.\<close>

fun isArray :: "jsval \<Rightarrow> bool" where
  "isArray (Some (JArr xs)) = True"
| "isArray v = False"

text \<open>The metadata block, for a document that is not \<^verbatim>\<open>null\<close>.\<close>

definition metadata_errors :: "json \<Rightarrow> string list" where
  "metadata_errors data =
     (if \<not> js_truthy (js_prop data ''metadata'') then [''Missing metadata object'']
      else
        let metadata = js_or (js_prop data ''metadata'') JNull
        in (if \<not> js_truthy (js_prop metadata ''lChapter'') then [''Missing metadata.lChapter'']
            else [])
         @ (if \<not> js_truthy (js_prop metadata ''title'') then [''Missing metadata.title'']
            else [])
         @ (if js_prop metadata ''hasStateVariables'' = None
            then [''Missing metadata.hasStateVariables''] else []))"

text \<open>
  The \<^verbatim>\<open>forEach\<close> over the slides: the warnings pushed, and the exception that ends the
  loop when a slide is \<^verbatim>\<open>null\<close>.
\<close>

fun slide_warnings :: "nat \<Rightarrow> json list \<Rightarrow> string list \<times> error option" where
  "slide_warnings index [] = ([], None)"
| "slide_warnings index (slide # slides) =
     (if slide = JNull then ([], Some TypeError)
      else
        let here =
              (if \<not> js_truthy (js_prop slide ''number'')
               then [''Slide '' @ decimal index @ '': missing number''] else [])
            @ (if \<not> js_truthy (js_prop slide ''type'')
               then [''Slide '' @ decimal index @ '': missing type''] else [])
            @ (if \<not> js_truthy (js_prop slide ''content'')
               then [''Slide '' @ decimal index @ '': missing content''] else []);
            rest = slide_warnings (Suc index) slides
        in (here @ fst rest, snd rest))"

text \<open>
  The block that compares the placeholders of the serialized document with the declared
  variables, entered when \<^verbatim>\<open>metadata.hasStateVariables\<close> is truthy.
\<close>

definition variable_warnings :: "json \<Rightarrow> string list \<times> error option" where
  "variable_warnings data =
     (let metadata = js_or (js_prop data ''metadata'') JNull
      in if js_truthy (js_prop data ''metadata'')
            \<and> js_truthy (js_prop metadata ''hasStateVariables'')
         then
           let contentString = JSON_stringify data;
               foundVars = js_Set (placeholder_names contentString);
               none_found =
                 (if foundVars = []
                  then [''hasStateVariables is true but no {{PLACEHOLDERS}} found''] else [])
           in case new_Set (js_or (js_prop metadata ''stateVariablesUsed'') (JArr [])) of
                Inl e \<Rightarrow> (none_found, Some e)
              | Inr declaredVars \<Rightarrow>
                  (none_found
                   @ concat (map (\<lambda>v. if JStr v \<notin> set declaredVars
                                          \<and> v \<notin> set CALCULATED_FIELD_NAMES
                                       then [''Variable {{'' @ v
                                             @ ''}} used but not declared in stateVariablesUsed'']
                                       else [])
                               foundVars),
                   None)
         else ([], None))"

text \<open>
  The body of the \<^verbatim>\<open>try\<close> block after \<^verbatim>\<open>JSON.parse\<close>: the report, and the exception thrown
  if any. Reading \<^verbatim>\<open>data.metadata\<close> throws when the document is \<^verbatim>\<open>null\<close>.
\<close>

definition validate_document :: "json \<Rightarrow> report \<times> error option" where
  "validate_document data =
     (if data = JNull then (\<lparr>errors = [], warnings = []\<rparr>, Some TypeError)
      else
        let errs = metadata_errors data
        in case js_prop data ''slides'' of
             Some (JArr slides) \<Rightarrow>
               (case slide_warnings 0 slides of
                  (warns, Some e) \<Rightarrow> (\<lparr>errors = errs, warnings = warns\<rparr>, Some e)
                | (warns, None) \<Rightarrow>
                    (\<lparr>errors = errs, warnings = warns @ fst (variable_warnings data)\<rparr>,
                     snd (variable_warnings data)))
           | other \<Rightarrow>
               (\<lparr>errors = errs @ [''Missing or invalid slides array''],
                 warnings = fst (variable_warnings data)\<rparr>,
                snd (variable_warnings data)))"

text \<open>
  \<^verbatim>\<open>validateContentJSON\<close>, given what reading and parsing the file gave: the exception of
  \<^verbatim>\<open>readFileSync\<close> or \<^verbatim>\<open>JSON.parse\<close>, or the parsed document. Any exception is caught and
  the result is \<^verbatim>\<open>false\<close>; otherwise the result is \<^verbatim>\<open>errors.length === 0\<close>.
\<close>

definition validateContentJSON :: "error + json \<Rightarrow> bool" where
  "validateContentJSON file =
     (case file of
        Inl e \<Rightarrow> False
      | Inr data \<Rightarrow>
          (case snd (validate_document data) of
             Some e \<Rightarrow> False
           | None \<Rightarrow> errors (fst (validate_document data)) = []))"

text \<open>
  What the validator prints: the heading with the file path and a rule; then, when the
  checks finished, either the three lines of a passed validation or the errors and the
  warnings, each list under its heading with one item to a line; when an exception was
  caught, the line of the failure alone; and a closing rule. The slide count is printed
  only when there is no error, so that \<^verbatim>\<open>data.slides\<close> is an array there.
\<close>

datatype console_line =
    Validating string
  | Rule
  | Passed
  | SlidesCount nat
  | StateVariablesLine bool
  | ErrorsHeading
  | WarningsHeading
  | Item string
  | Failed error

definition validation_console :: "string \<Rightarrow> error + json \<Rightarrow> console_line list" where
  "validation_console filePath file =
     [Validating filePath, Rule]
     @ (case file of
          Inl e \<Rightarrow> [Failed e]
        | Inr data \<Rightarrow>
            (case snd (validate_document data) of
               Some e \<Rightarrow> [Failed e]
             | None \<Rightarrow>
                 let errs = errors (fst (validate_document data));
                     warns = warnings (fst (validate_document data))
                 in if errs = [] \<and> warns = []
                    then [Passed,
                          SlidesCount (case js_prop data ''slides'' of
                                         Some (JArr slides) \<Rightarrow> length slides | other \<Rightarrow> 0),
                          StateVariablesLine
                            (js_truthy (js_prop (js_or (js_prop data ''metadata'') JNull)
                                          ''hasStateVariables''))]
                    else (if errs \<noteq> [] then ErrorsHeading # map Item errs else [])
                       @ (if warns \<noteq> [] then WarningsHeading # map Item warns else [])))
     @ [Rule]"

text \<open>
  The conditions under which the checks of a document throw: the document is \<^verbatim>\<open>null\<close>, an
  entry of the slides array is \<^verbatim>\<open>null\<close>, or \<^verbatim>\<open>hasStateVariables\<close> is truthy and
  \<^verbatim>\<open>stateVariablesUsed\<close> is a truthy value that is neither an array nor a string.
\<close>

definition checks_throw :: "json \<Rightarrow> bool" where
  "checks_throw data =
     (data = JNull
      \<or> (case js_prop data ''slides'' of
            Some (JArr slides) \<Rightarrow> JNull \<in> set slides | other \<Rightarrow> False)
      \<or> (js_truthy (js_prop data ''metadata'')
          \<and> js_truthy (js_prop (js_or (js_prop data ''metadata'') JNull) ''hasStateVariables'')
          \<and> (case js_or (js_prop (js_or (js_prop data ''metadata'') JNull) ''stateVariablesUsed'')
                       (JArr []) of
                JArr xs \<Rightarrow> False | JStr s \<Rightarrow> False | other \<Rightarrow> True)))"

text \<open>
  The hard errors in the words of the specification: metadata missing, its chapter id or
  title missing, \<^verbatim>\<open>hasStateVariables\<close> not defined, slides missing or not an array.
\<close>

definition no_hard_error :: "json \<Rightarrow> bool" where
  "no_hard_error data =
     (js_truthy (js_prop data ''metadata'')
      \<and> js_truthy (js_prop (js_or (js_prop data ''metadata'') JNull) ''lChapter'')
      \<and> js_truthy (js_prop (js_or (js_prop data ''metadata'') JNull) ''title'')
      \<and> js_prop (js_or (js_prop data ''metadata'') JNull) ''hasStateVariables'' \<noteq> None
      \<and> isArray (js_prop data ''slides''))"

text \<open>
  Three documents: one with every required field and a slide without content, one
  without a title, and one whose slides array holds \<^verbatim>\<open>null\<close>.
\<close>

definition complete_doc :: json where
  "complete_doc =
     JObj [(''metadata'', JObj [(''lChapter'', JStr ''L-01''), (''title'', JStr ''Jobs vs Careers''),
                              (''hasStateVariables'', JBool False)]),
           (''slides'', JArr [JObj [(''number'', JNum ''1''), (''type'', JStr ''title'')]])]"

definition untitled_doc :: json where
  "untitled_doc =
     JObj [(''metadata'', JObj [(''lChapter'', JStr ''L-01''), (''hasStateVariables'', JBool False)]),
           (''slides'', JArr [])]"

definition null_slide_doc :: json where
  "null_slide_doc =
     JObj [(''metadata'', JObj [(''lChapter'', JStr ''L-01''), (''title'', JStr ''Jobs vs Careers''),
                              (''hasStateVariables'', JBool False)]),
           (''slides'', JArr [JNull])]"

definition empty_title_doc :: json where
  "empty_title_doc =
     JObj [(''metadata'', JObj [(''lChapter'', JStr ''''), (''title'', JStr ''''),
                              (''hasStateVariables'', JBool False)]),
           (''slides'', JArr [])]"

text \<open>A document with an empty title whose slides array holds \<^verbatim>\<open>null\<close>.\<close>

definition empty_title_null_slide_doc :: json where
  "empty_title_null_slide_doc =
     JObj [(''metadata'', JObj [(''lChapter'', JStr ''L-01''), (''title'', JStr ''''),
                              (''hasStateVariables'', JBool False)]),
           (''slides'', JArr [JNull])]"

section \<open>State variable detection of the converter\<close>

definition STATE_VARIABLES :: "string list" where
  "STATE_VARIABLES =
     [''STATE_NAME'', ''STATE_GRANT_PROGRAM'', ''STATE_TUITION_PUBLIC'', ''STATE_TUITION_COMMUNITY'',
      ''MIN_WAGE'', ''INCOME_TAX_RATE'', ''SALES_TAX'', ''LOCAL_SALES_TAX_MAX'',
      ''COMBINED_SALES_TAX_MAX'',
      ''PROPERTY_TAX_COUNTY_RATE'', ''ASSESSMENT_PERCENTAGE'', ''HOMESTEAD_EXEMPTION'',
      ''MEDIAN_HOME_PRICE'', ''MEDIAN_RENT'', ''AVG_MORTGAGE_RATE_30YR'',
      ''REGISTRATION_INITIAL'', ''REGISTRATION_ANNUAL'', ''GAS_PRICE_CURRENT'',
      ''INSURANCE_AVG_TEEN'',
      ''AVG_AUTO_LOAN_RATE_NEW'', ''AVG_AUTO_LOAN_RATE_USED'',
      ''UNEMPLOYMENT_RATE'', ''MAJOR_INDUSTRIES'', ''MAJOR_CITY'', ''MAJOR_CITY_1'',
      ''MAJOR_CITY_2'',
      ''AVG_MONTHLY_FEE'', ''AVG_OVERDRAFT_FEE'', ''LOCAL_CREDIT_UNION_NAME'',
      ''DMV_URL'', ''TAX_AUTHORITY_URL'', ''LABOR_DEPARTMENT_URL'', ''CONSUMER_PROTECTION_URL'']"

text \<open>
  \<^verbatim>\<open>contentStr.match(/\{\{([A-Z_]+)\}\}/g)\<close>: the matched texts, or \<^verbatim>\<open>null\<close> (here \<open>None\<close>)
  when there is no match.
\<close>

definition regex_matches :: "string \<Rightarrow> string list option" where
  "regex_matches s =
     (case placeholder_names s of
        [] \<Rightarrow> None
      | name # names \<Rightarrow> Some (map placeholder_of (name # names)))"

text \<open>\<^verbatim>\<open>match.replace(/[{}]/g, '')\<close>.\<close>

definition strip_braces :: "string \<Rightarrow> string" where
  "strip_braces m = filter (\<lambda>c. c \<noteq> CHR ''{'' \<and> c \<noteq> CHR ''}'') m"

definition detectStateVariables :: "json \<Rightarrow> string list" where
  "detectStateVariables content =
     (let contentStr = JSON_stringify content;
          known = filter (\<lambda>varName. js_includes contentStr (placeholder_of varName)
                                    \<or> js_includes contentStr varName)
                    STATE_VARIABLES;
          found = (case regex_matches contentStr of
                     None \<Rightarrow> known
                   | Some matches \<Rightarrow>
                       foldl (\<lambda>found m.
                                let varName = strip_braces m
                                in if varName \<in> set found then found else found @ [varName])
                         known matches)
      in js_Set found)"

text \<open>
  The end of \<^verbatim>\<open>convertHtmlToJson\<close>. The chapter id, the titles and the slides are what the
  DOM queries of the function's first part extracted from the HTML file; the document is
  built from them with no state variables, serialized for the detection, and its two
  metadata fields are then set from the names found.
\<close>

definition document_of :: "string \<Rightarrow> string \<Rightarrow> string \<Rightarrow> json list \<Rightarrow> bool \<Rightarrow> string list \<Rightarrow> json" where
  "document_of lChapter mainTitle subtitle slides hasVars usedVars =
     JObj [(''metadata'',
            JObj [(''lChapter'', JStr lChapter),
                  (''title'', JStr mainTitle),
                  (''subtitle'', JStr subtitle),
                  (''totalSlides'', JNum (decimal (length slides))),
                  (''hasStateVariables'', JBool hasVars),
                  (''stateVariablesUsed'', JArr (map JStr usedVars))]),
           (''slides'', JArr slides)]"

definition convertHtmlToJson_output :: "string \<Rightarrow> string \<Rightarrow> string \<Rightarrow> json list \<Rightarrow> json" where
  "convertHtmlToJson_output lChapter mainTitle subtitle slides =
     (let jsonOutput = document_of lChapter mainTitle subtitle slides False [];
          stateVars = detectStateVariables jsonOutput
      in document_of lChapter mainTitle subtitle slides (length stateVars > 0) stateVars)"

text \<open>\<^verbatim>\<open>doc.metadata.name\<close> on a document with a metadata object.\<close>

definition metadata_field :: "json \<Rightarrow> string \<Rightarrow> jsval" where
  "metadata_field doc name = js_prop (js_or (js_prop doc ''metadata'') JNull) name"

text \<open>A slide list that names a known variable and holds two placeholders.\<close>

definition sample_slides :: "json list" where
  "sample_slides =
     [JObj [(''number'', JNum ''1''), (''type'', JStr ''hook''),
            (''content'', JObj [(''question'', JStr ''Is {{RENT}} above MEDIAN_RENT in {{CITY}}?'')])]]"

text \<open>
  The two findings in the words of the specification: the names \<open>n\<close> of upper-case
  letters and underscores for which \<^verbatim>\<open>{{n}}\<close> occurs in the serialized document, and the
  names of the fixed list that occur in it literally.
\<close>

definition placeholder_tokens :: "string \<Rightarrow> string set" where
  "placeholder_tokens s =
     {n. n \<noteq> [] \<and> list_all is_upper_us n \<and> js_includes s (placeholder_of n)}"

definition known_names_in :: "string \<Rightarrow> string set" where
  "known_names_in s = {v. v \<in> set STATE_VARIABLES \<and> js_includes s v}"

section \<open>Properties of the chapter mapping parser\<close>

lemma row_columns_nonempty: "c \<in> set (row_columns row) \<Longrightarrow> c \<noteq> []"
  by (simp add: row_columns_def)

lemma js_index_in_set: "js_index xs i = Some x \<Longrightarrow> x \<in> set xs"
  by (induction xs i rule: js_index.induct) auto

lemma first_matching_row_none:
  "\<forall>l \<in> set rows. js_index (row_columns l) 0 \<noteq> Some lChapter \<Longrightarrow>
   first_matching_row lChapter rows = None"
  by (induction rows) (simp_all add: Let_def)

lemma first_matching_row_first:
  assumes "\<forall>l \<in> set pre. js_index (row_columns l) 0 \<noteq> Some lChapter"
    and "js_index (row_columns r) 0 = Some lChapter"
  shows "first_matching_row lChapter (pre @ r # post) = Some (row_mapping r)"
  using assms
proof (induction pre)
  case Nil
  show ?case
  proof (cases "js_index (row_columns r) 2")
    case None
    with Nil show ?thesis by (simp add: Let_def row_mapping_def)
  next
    case (Some t)
    have "t \<noteq> []"
      by (rule row_columns_nonempty [OF js_index_in_set [OF Some]])
    with Nil Some show ?thesis by (simp add: Let_def row_mapping_def)
  qed
next
  case (Cons l pre)
  then show ?case by (simp add: Let_def)
qed

lemma filter_rows_split:
  assumes "\<forall>l \<in> set pre. \<not> row_matches lChapter l" and "row_matches lChapter r"
  shows "\<exists>pre' post'.
           filter (\<lambda>line. js_startsWith (js_trim line) ''|'') (pre @ r # post) = pre' @ r # post'
           \<and> (\<forall>l \<in> set pre'. js_index (row_columns l) 0 \<noteq> Some lChapter)"
proof -
  let ?P = "\<lambda>line. js_startsWith (js_trim line) ''|''"
  have "filter ?P (pre @ r # post) = filter ?P pre @ r # filter ?P post"
    using assms(2) by (simp add: row_matches_def)
  moreover have "\<forall>l \<in> set (filter ?P pre). js_index (row_columns l) 0 \<noteq> Some lChapter"
    using assms(1) by (auto simp: row_matches_def)
  ultimately show ?thesis by blast
qed

lemma parse_first_match:
  assumes "js_split text [NL] = pre @ r # post"
    and "\<forall>l \<in> set pre. \<not> row_matches lChapter l"
    and "row_matches lChapter r"
  shows "parseChapterMapping text lChapter = ([], row_mapping r)"
proof -
  obtain pre' post' where
    f: "filter (\<lambda>line. js_startsWith (js_trim line) ''|'') (pre @ r # post) = pre' @ r # post'"
    and n: "\<forall>l \<in> set pre'. js_index (row_columns l) 0 \<noteq> Some lChapter"
    using filter_rows_split [OF assms(2,3)] by blast
  have "first_matching_row lChapter (pre' @ r # post') = Some (row_mapping r)"
    using first_matching_row_first [OF n] assms(3) by (simp add: row_matches_def)
  then show ?thesis
    unfolding parseChapterMapping_def Let_def assms(1) f by simp
qed

lemma parse_no_match:
  assumes "\<forall>l \<in> set (js_split text [NL]). \<not> row_matches lChapter l"
  shows "parseChapterMapping text lChapter =
           ([NoMappingFound lChapter],
            \<lparr>stateChapter = Some (js_replace lChapter ''L-'' []), title = ''Unknown Chapter''\<rparr>)"
proof -
  have "first_matching_row lChapter
          (filter (\<lambda>line. js_startsWith (js_trim line) ''|'') (js_split text [NL])) = None"
    using assms by (intro first_matching_row_none) (auto simp: row_matches_def)
  then show ?thesis
    by (simp add: parseChapterMapping_def Let_def)
qed

lemma index_of_first_L:
  "\<not> js_includes (a @ ''L'') ''L-'' \<Longrightarrow> index_of (a @ ''L-'' @ b) ''L-'' = Some (length a)"
proof (induction a)
  case Nil
  then show ?case by simp
next
  case (Cons x a)
  then have "\<not> prefix ''L-'' (x # a @ ''L-'' @ b)"
    by (cases a) auto
  with Cons show ?case by simp
qed

lemma replace_first_L:
  assumes "\<not> js_includes (a @ ''L'') ''L-''"
  shows "js_replace (a @ ''L-'' @ b) ''L-'' [] = a @ b"
  unfolding js_replace_def index_of_first_L [OF assms] by simp

lemma replace_no_L: "\<not> js_includes s ''L-'' \<Longrightarrow> js_replace s ''L-'' [] = s"
  by (induction s) (auto simp: js_replace_def split: option.splits)

text \<open>
  Claim C3, as the code has it. The resolver asked for \<^verbatim>\<open>L-03\<close> returns state chapter
  \<^verbatim>\<open>1.3\<close> and title \<^verbatim>\<open>Income and Taxes\<close>, without a warning, when the first line of the
  mapping text that is a table row with first cell \<^verbatim>\<open>L-03\<close> has the cells \<^verbatim>\<open>L-03\<close>,
  \<^verbatim>\<open>1.3\<close> and \<^verbatim>\<open>Income and Taxes\<close>: the row \<^verbatim>\<open>| L-03 | 1.3 | Income and Taxes |\<close> as a
  line, with or without white space or a carriage return around it. An earlier row of
  \<^verbatim>\<open>L-03\<close> wins over it. When no line is a table row whose first cell is the chapter id,
  the resolver warns once and returns the title \<^verbatim>\<open>Unknown Chapter\<close> and, as state chapter,
  the id without its first occurrence of \<^verbatim>\<open>L-\<close>, wherever that stands: for an id
  \<^verbatim>\<open>L-99\<close> that is \<^verbatim>\<open>99\<close>; an id that holds no \<^verbatim>\<open>L-\<close> is returned as it is. The model is a
  total function: no input makes the resolver throw.
\<close>

theorem parseChapterMapping_lookup_and_fallback:
  "(js_split content [NL] = pre @ r # post \<longrightarrow>
      (\<forall>l \<in> set pre. \<not> row_matches ''L-03'' l) \<longrightarrow>
      js_startsWith (js_trim r) ''|'' \<longrightarrow>
      row_columns r = [''L-03'', ''1.3'', ''Income and Taxes''] \<longrightarrow>
      parseChapterMapping content ''L-03'' =
        ([], \<lparr>stateChapter = Some ''1.3'', title = ''Income and Taxes''\<rparr>))
   \<and> ((\<forall>l \<in> set (js_split other [NL]). \<not> row_matches (a @ ''L-'' @ b) l) \<longrightarrow>
      \<not> js_includes (a @ ''L'') ''L-'' \<longrightarrow>
      parseChapterMapping other (a @ ''L-'' @ b) =
        ([NoMappingFound (a @ ''L-'' @ b)],
         \<lparr>stateChapter = Some (a @ b), title = ''Unknown Chapter''\<rparr>))
   \<and> ((\<forall>l \<in> set (js_split other [NL]). \<not> row_matches plain l) \<longrightarrow>
      \<not> js_includes plain ''L-'' \<longrightarrow>
      parseChapterMapping other plain =
        ([NoMappingFound plain], \<lparr>stateChapter = Some plain, title = ''Unknown Chapter''\<rparr>))"
proof (intro conjI impI)
  assume s: "js_split content [NL] = pre @ r # post"
    and n: "\<forall>l \<in> set pre. \<not> row_matches ''L-03'' l"
    and t: "js_startsWith (js_trim r) ''|''"
    and c: "row_columns r = [''L-03'', ''1.3'', ''Income and Taxes'']"
  have m: "row_matches ''L-03'' r"
    unfolding row_matches_def c using t by simp
  have "row_mapping r = \<lparr>stateChapter = Some ''1.3'', title = ''Income and Taxes''\<rparr>"
    unfolding row_mapping_def c by (simp add: numeral_2_eq_2)
  then show "parseChapterMapping content ''L-03'' =
      ([], \<lparr>stateChapter = Some ''1.3'', title = ''Income and Taxes''\<rparr>)"
    using parse_first_match [OF s n m] by simp
next
  assume "\<forall>l \<in> set (js_split other [NL]). \<not> row_matches (a @ ''L-'' @ b) l"
    and "\<not> js_includes (a @ ''L'') ''L-''"
  from parse_no_match [OF this(1)] replace_first_L [OF this(2), of b]
  show "parseChapterMapping other (a @ ''L-'' @ b) =
      ([NoMappingFound (a @ ''L-'' @ b)],
       \<lparr>stateChapter = Some (a @ b), title = ''Unknown Chapter''\<rparr>)"
    by simp
next
  assume "\<forall>l \<in> set (js_split other [NL]). \<not> row_matches plain l"
    and "\<not> js_includes plain ''L-''"
  from parse_no_match [OF this(1)] replace_no_L [OF this(2)]
  show "parseChapterMapping other plain =
      ([NoMappingFound plain], \<lparr>stateChapter = Some plain, title = ''Unknown Chapter''\<rparr>)"
    by simp
qed

lemma sample_mapping_lines:
  "js_split sample_mapping [NL] =
     [''## Chapters'', ''| L-Chapter | State | Title |'', ''|---|---|---|'']
       @ ''| L-03 | 1.3 | Income and Taxes |''
       # [''| L-04 | 1.4 | Budgeting |'', ''| L-03 | 2.7 | Repeated Row |'']"
  by (simp add: sample_mapping_def js_split_def)

lemma sample_mapping_columns:
  "row_columns ''## Chapters'' = [''## Chapters'']"
  "row_columns ''| L-Chapter | State | Title |'' = [''L-Chapter'', ''State'', ''Title'']"
  "row_columns ''|---|---|---|'' = [''---'', ''---'', ''---'']"
  "row_columns ''| L-03 | 1.3 | Income and Taxes |'' = [''L-03'', ''1.3'', ''Income and Taxes'']"
  "row_columns ''| L-04 | 1.4 | Budgeting |'' = [''L-04'', ''1.4'', ''Budgeting'']"
  "row_columns ''| L-03 | 2.7 | Repeated Row |'' = [''L-03'', ''2.7'', ''Repeated Row'']"
  by (simp_all add: row_columns_def js_split_def js_trim_def js_is_space_def)

lemma crlf_mapping_lines:
  "js_split crlf_mapping [NL] =
     [''| L-Chapter | State | Title |'' @ [CHR 0x0D]]
       @ (''| L-03 | 1.3 | Income and Taxes |'' @ [CHR 0x0D])
       # [''| L-04 | 1.4 | Budgeting |'' @ [CHR 0x0D], []]"
  by (simp add: crlf_mapping_def js_split_def)

lemma js_split_bar: "js_split s ''|'' = split_at ''|'' s"
  by (simp add: js_split_def)

theorem parseChapterMapping_lookup_and_fallback_witness:
  "parseChapterMapping crlf_mapping ''L-03'' =
     ([], \<lparr>stateChapter = Some ''1.3'', title = ''Income and Taxes''\<rparr>)
   \<and> parseChapterMapping crlf_mapping ''L-99'' =
       ([NoMappingFound ''L-99''], \<lparr>stateChapter = Some ''99'', title = ''Unknown Chapter''\<rparr>)
   \<and> parseChapterMapping crlf_mapping ''XL-5'' =
       ([NoMappingFound ''XL-5''], \<lparr>stateChapter = Some ''X5'', title = ''Unknown Chapter''\<rparr>)
   \<and> parseChapterMapping crlf_mapping ''INTRO'' =
       ([NoMappingFound ''INTRO''], \<lparr>stateChapter = Some ''INTRO'', title = ''Unknown Chapter''\<rparr>)"
  using parseChapterMapping_lookup_and_fallback
      [where content = crlf_mapping and pre = "[''| L-Chapter | State | Title |'' @ [CHR 0x0D]]"
         and r = "''| L-03 | 1.3 | Income and Taxes |'' @ [CHR 0x0D]"
         and post = "[''| L-04 | 1.4 | Budgeting |'' @ [CHR 0x0D], []]"
         and other = crlf_mapping and a = "[]" and b = "''99''" and plain = "''INTRO''"]
    parseChapterMapping_lookup_and_fallback
      [where content = "[]" and pre = "[]" and r = "[]" and post = "[]"
         and other = crlf_mapping and a = "''X''" and b = "''5''" and plain = "''INTRO''"]
  by (simp add: crlf_mapping_lines row_matches_def row_columns_def js_split_bar
      js_startsWith_def js_trim_def js_is_space_def)

text \<open>
  Claim C3 as the specification words it fails on a text that holds the row of the
  example after another row of \<^verbatim>\<open>L-03\<close>: the earlier row is returned. It also fails on an id
  in which \<^verbatim>\<open>L-\<close> is not leading: the \<^verbatim>\<open>L-\<close> inside \<^verbatim>\<open>XL-5\<close> is removed.
\<close>

theorem parseChapterMapping_repeated_row_counterexample:
  "js_includes repeated_mapping ''| L-03 | 1.3 | Income and Taxes |''
   \<and> parseChapterMapping repeated_mapping ''L-03'' =
       ([], \<lparr>stateChapter = Some ''2.7'', title = ''Repeated Row''\<rparr>)
   \<and> parseChapterMapping repeated_mapping ''XL-5'' =
       ([NoMappingFound ''XL-5''], \<lparr>stateChapter = Some ''X5'', title = ''Unknown Chapter''\<rparr>)"
  by (simp add: repeated_mapping_def parseChapterMapping_def js_split_def row_columns_def
      js_startsWith_def js_trim_def js_is_space_def js_replace_def Let_def numeral_2_eq_2)

text \<open>
  Claim C10. When several table rows have the chapter id as first cell, the resolver
  returns the state chapter and title of the earliest one: whatever lines follow the first
  matching row, matching or not, the result is that of the first.
\<close>

theorem parseChapterMapping_first_match_wins:
  assumes "js_split text [NL] = pre @ r # post"
    and "\<forall>l \<in> set pre. \<not> row_matches lChapter l"
    and "row_matches lChapter r"
  shows "parseChapterMapping text lChapter = ([], row_mapping r)"
  using assms by (rule parse_first_match)

theorem parseChapterMapping_first_match_wins_witness:
  "row_matches ''L-03'' ''| L-03 | 2.7 | Repeated Row |''
   \<and> parseChapterMapping sample_mapping ''L-03'' =
       ([], \<lparr>stateChapter = Some ''1.3'', title = ''Income and Taxes''\<rparr>)"
  using parseChapterMapping_first_match_wins
    [of sample_mapping "[''## Chapters'', ''| L-Chapter | State | Title |'', ''|---|---|---|'']"
        "''| L-03 | 1.3 | Income and Taxes |''"
        "[''| L-04 | 1.4 | Budgeting |'', ''| L-03 | 2.7 | Repeated Row |'']" "''L-03''"]
  by (simp add: sample_mapping_lines row_matches_def sample_mapping_columns row_mapping_def
      js_startsWith_def js_trim_def js_is_space_def numeral_2_eq_2)

section \<open>Properties of the interpolation\<close>

lemma js_includes_empty: "js_includes s []"
  by (cases s) simp_all

lemma split_at_absent: "\<not> js_includes s p \<Longrightarrow> split_at p s = [s]"
  by (induction s) simp_all

lemma replace_placeholder_absent:
  assumes "\<not> js_includes s p"
  shows "replace_placeholder s p t = s"
proof -
  have "p \<noteq> []"
    using assms js_includes_empty by blast
  then show ?thesis
    using assms by (simp add: replace_placeholder_def js_split_def split_at_absent)
qed

lemma index_of_absent: "\<not> js_includes s p \<Longrightarrow> index_of s p = None"
  by (induction s) (simp_all split: if_splits)

lemma js_replace_absent: "\<not> js_includes s p \<Longrightarrow> js_replace s p r = s"
  by (simp add: js_replace_def index_of_absent)

lemma foldl_replace_absent:
  assumes "\<forall>x \<in> set xs. \<not> js_includes s (ph x)"
  shows "foldl (\<lambda>result x. replace_placeholder result (ph x) (txt x)) s xs = s"
  using assms by (induction xs) (simp_all add: replace_placeholder_absent)

lemma replace_state_variables_absent:
  assumes "\<forall>key \<in> set (map fst V). \<not> js_includes s (placeholder_of key)"
  shows "replace_state_variables V s = s"
  unfolding replace_state_variables_def
  using assms by (rule foldl_replace_absent)

lemma replace_calculated_fields_absent:
  assumes "\<forall>name \<in> set CALCULATED_FIELD_NAMES. \<not> js_includes s (placeholder_of name)"
  shows "replace_calculated_fields ops V s = s"
proof -
  have "\<forall>field \<in> set (CALCULATED_FIELDS ops). \<not> js_includes s (placeholder_of (fst field))"
    using assms by (simp add: CALCULATED_FIELDS_def CALCULATED_FIELD_NAMES_def)
  then show ?thesis
    unfolding replace_calculated_fields_def by (rule foldl_replace_absent)
qed

lemma replace_metadata_absent:
  assumes "\<not> js_includes s ''{{CHAPTER_TITLE}}''" and "\<not> js_includes s ''{{CHAPTER_SUBTITLE}}''"
  shows "replace_metadata C s = s"
  using assms by (simp add: replace_metadata_def Let_def js_replace_absent split: option.splits)

lemma interpolateVariables_resolved:
  assumes "\<forall>key \<in> set (map fst V). \<not> js_includes T (placeholder_of key)"
    and "\<forall>name \<in> set CALCULATED_FIELD_NAMES. \<not> js_includes T (placeholder_of name)"
    and "\<not> js_includes T ''{{CHAPTER_TITLE}}''"
    and "\<not> js_includes T ''{{CHAPTER_SUBTITLE}}''"
  shows "interpolateVariables ops (Some (JStr T)) V C = JStr T"
  using assms
  by (simp add: interpolateVariables_def js_or_def replace_state_variables_absent
      replace_calculated_fields_absent replace_metadata_absent)

text \<open>
  The calculated fields, for every arithmetic: each value is a dollar sign followed by a
  \<^verbatim>\<open>toFixed(2)\<close> text, and a rate that is absent from the state variables, or falsy, counts
  as the number 0. How the total relates to the three amounts in value depends on the
  rounding of the arithmetic: the last section settles it for binary64.
\<close>

lemma calculated_fields_dollar:
  "\<exists>x. CALCULATED_STATE_TAX_MONTHLY ops vars b = ''$'' @ toFixed ops x 2"
  "\<exists>x. CALCULATED_LOCAL_TAX_MONTHLY ops vars b = ''$'' @ toFixed ops x 2"
  "\<exists>x. CALCULATED_SDI_MONTHLY ops vars b = ''$'' @ toFixed ops x 2"
  "\<exists>x. CALCULATED_TOTAL_STATE_DEDUCTIONS ops vars b = ''$'' @ toFixed ops x 2"
  unfolding CALCULATED_STATE_TAX_MONTHLY_def CALCULATED_LOCAL_TAX_MONTHLY_def
    CALCULATED_SDI_MONTHLY_def CALCULATED_TOTAL_STATE_DEDUCTIONS_def Let_def
  by blast+

lemma calculated_fields_missing_rate:
  assumes "\<not> js_truthy (map_of vars ''INCOME_TAX_RATE'')"
    and "\<not> js_truthy (map_of vars ''LOCAL_INCOME_TAX'')"
    and "\<not> js_truthy (map_of vars ''SDI_RATE'')"
  shows "CALCULATED_STATE_TAX_MONTHLY ops vars b =
           ''$'' @ toFixed ops (fdiv ops (fmul ops b (parseFloat ops (JNum ''0''))) (of_literal ops 100)) 2"
    and "CALCULATED_LOCAL_TAX_MONTHLY ops vars b = CALCULATED_STATE_TAX_MONTHLY ops vars b"
    and "CALCULATED_SDI_MONTHLY ops vars b = CALCULATED_STATE_TAX_MONTHLY ops vars b"
  using assms
  by (auto simp: CALCULATED_STATE_TAX_MONTHLY_def CALCULATED_LOCAL_TAX_MONTHLY_def
      CALCULATED_SDI_MONTHLY_def Let_def js_or_def js_truthy_def split: option.splits)

text \<open>
  Claim C1, as the code has it. For \<^verbatim>\<open>undefined\<close>, \<^verbatim>\<open>null\<close> and every other falsy template
  (\<^verbatim>\<open>false\<close>, \<^verbatim>\<open>0\<close>, \<^verbatim>\<open>NaN\<close>, the empty string) the interpolator returns the empty string; a
  truthy template that is not a string (a number, \<^verbatim>\<open>true\<close>, an array, an object) is returned
  as it is, by \<^verbatim>\<open>return template || ''\<close>. Neither case reads the state variables or the
  content document, and the model is a total function: nothing is thrown.
\<close>

theorem interpolateVariables_non_string:
  "(\<not> js_truthy template \<longrightarrow>
      interpolateVariables ops template stateVars contentData = JStr [])
   \<and> (js_truthy (Some v) \<longrightarrow> (\<forall>s. v \<noteq> JStr s) \<longrightarrow>
      interpolateVariables ops (Some v) stateVars contentData = v)"
proof (intro conjI impI)
  assume "\<not> js_truthy template"
  then show "interpolateVariables ops template stateVars contentData = JStr []"
    by (auto simp: interpolateVariables_def js_truthy_def js_or_def
        split: option.splits json.splits)
next
  assume "js_truthy (Some v)" and "\<forall>s. v \<noteq> JStr s"
  then show "interpolateVariables ops (Some v) stateVars contentData = v"
    by (cases v) (simp_all add: interpolateVariables_def js_truthy_def js_or_def)
qed

theorem interpolateVariables_non_string_witness:
  "interpolateVariables unit_ops None [(''STATE_NAME'', JStr ''Oklahoma'')] None = JStr []
   \<and> interpolateVariables unit_ops (Some JNull) [(''STATE_NAME'', JStr ''Oklahoma'')] None = JStr []
   \<and> interpolateVariables unit_ops (Some (JObj [(''a'', JNum ''1'')]))
         [(''STATE_NAME'', JStr ''Oklahoma'')] None = JObj [(''a'', JNum ''1'')]"
  using interpolateVariables_non_string
      [of None unit_ops "[(''STATE_NAME'', JStr ''Oklahoma'')]" None "JObj [(''a'', JNum ''1'')]"]
    interpolateVariables_non_string
      [of "Some JNull" unit_ops "[(''STATE_NAME'', JStr ''Oklahoma'')]" None "JNull"]
  by (simp add: js_truthy_def)

text \<open>
  Claim C1 as the specification words it fails on a truthy value that is not a string:
  the number 5 comes back as the number 5, not as the empty string.
\<close>

theorem interpolateVariables_number_counterexample:
  "interpolateVariables unit_ops (Some (JNum ''5'')) [] None = JNum ''5''
   \<and> interpolateVariables unit_ops (Some (JNum ''5'')) [] None \<noteq> JStr []"
  by (simp add: interpolateVariables_def js_or_def)

text \<open>
  Claim C5. On a text that holds no placeholder of a state variable key, of a calculated
  field or of the chapter metadata, the interpolation returns the text unchanged, so
  applying it to its own result gives the same result again.
\<close>

theorem interpolateVariables_idempotent:
  assumes "\<forall>key \<in> set (map fst V). \<not> js_includes T (placeholder_of key)"
    and "\<forall>name \<in> set CALCULATED_FIELD_NAMES. \<not> js_includes T (placeholder_of name)"
    and "\<not> js_includes T ''{{CHAPTER_TITLE}}''"
    and "\<not> js_includes T ''{{CHAPTER_SUBTITLE}}''"
  shows "interpolateVariables ops (Some (interpolateVariables ops (Some (JStr T)) V C)) V C
           = interpolateVariables ops (Some (JStr T)) V C
         \<and> interpolateVariables ops (Some (JStr T)) V C = JStr T"
  by (simp add: interpolateVariables_resolved [OF assms])

theorem interpolateVariables_idempotent_witness:
  "interpolateVariables unit_ops
     (Some (interpolateVariables unit_ops (Some (JStr ''Taxes in {{PLACE}} are due''))
        [(''STATE_NAME'', JStr ''Oklahoma''), (''MIN_WAGE'', JNum ''7.25'')]
        (Some (JObj [(''metadata'', JObj [(''title'', JStr ''Income'')])]))))
     [(''STATE_NAME'', JStr ''Oklahoma''), (''MIN_WAGE'', JNum ''7.25'')]
     (Some (JObj [(''metadata'', JObj [(''title'', JStr ''Income'')])]))
   = JStr ''Taxes in {{PLACE}} are due''"
  using interpolateVariables_idempotent
    [of "[(''STATE_NAME'', JStr ''Oklahoma''), (''MIN_WAGE'', JNum ''7.25'')]"
        "''Taxes in {{PLACE}} are due''" unit_ops
        "Some (JObj [(''metadata'', JObj [(''title'', JStr ''Income'')])])"]
  by (simp add: placeholder_of_def CALCULATED_FIELD_NAMES_def)

section \<open>Properties of the layout renderers\<close>

lemma generateObjectivesLayout_no_items:
  assumes "data \<noteq> JNull"
    and "js_prop data ''objectives'' = None \<or> js_prop data ''objectives'' = Some (JArr [])"
  shows "generateObjectivesLayout ops data stateVars =
           Inr (''<div class=\"objectives-expanded\">\<newline></div>\<newline>'')"
proof -
  have g: "get_prop (Some data) ''objectives'' = Inr (js_prop data ''objectives'')"
    using assms(1) by (cases data) simp_all
  from assms(2) show ?thesis
  proof
    assume "js_prop data ''objectives'' = None"
    then show ?thesis
      by (simp add: generateObjectivesLayout_def g and_then_def js_truthy_def)
  next
    assume "js_prop data ''objectives'' = Some (JArr [])"
    then show ?thesis
      by (simp add: generateObjectivesLayout_def g and_then_def js_truthy_def forEach_html_def)
  qed
qed

text \<open>
  Claim C8. When the \<^verbatim>\<open>objectives\<close> field of the layout data is absent or the empty list,
  the objectives renderer returns the opening and the closing line of the container and
  nothing between them, and it does not throw. This holds for the renderer called on any
  layout data but \<^verbatim>\<open>null\<close>, and for the dispatcher on a content value with layout
  \<^verbatim>\<open>objectives-expanded\<close>, where absent or \<^verbatim>\<open>null\<close> layout data stands for the empty object.
\<close>

theorem generateObjectivesLayout_empty:
  "(data \<noteq> JNull \<longrightarrow>
      (js_prop data ''objectives'' = None \<or> js_prop data ''objectives'' = Some (JArr [])) \<longrightarrow>
      generateObjectivesLayout ops data stateVars =
        Inr (''<div class=\"objectives-expanded\">\<newline></div>\<newline>''))
   \<and> (js_prop content ''layout'' = Some (JStr ''objectives-expanded'') \<longrightarrow>
      (js_prop (js_or (js_prop content ''layoutData'') (JObj [])) ''objectives'' = None
        \<or> js_prop (js_or (js_prop content ''layoutData'') (JObj [])) ''objectives''
            = Some (JArr [])) \<longrightarrow>
      generateLayoutContent ops (Some content) stateVars =
        Inr (''<div class=\"objectives-expanded\">\<newline></div>\<newline>''))"
proof (intro conjI impI)
  assume "data \<noteq> JNull"
    and "js_prop data ''objectives'' = None \<or> js_prop data ''objectives'' = Some (JArr [])"
  then show "generateObjectivesLayout ops data stateVars =
      Inr (''<div class=\"objectives-expanded\">\<newline></div>\<newline>'')"
    by (rule generateObjectivesLayout_no_items)
next
  let ?d = "js_or (js_prop content ''layoutData'') (JObj [])"
  assume l: "js_prop content ''layout'' = Some (JStr ''objectives-expanded'')"
    and o: "js_prop ?d ''objectives'' = None \<or> js_prop ?d ''objectives'' = Some (JArr [])"
  have c: "truthy content"
    using l by (cases content) simp_all
  have "?d \<noteq> JNull"
    by (auto simp: js_or_def split: option.splits)
  then have "generateObjectivesLayout ops ?d stateVars =
      Inr (''<div class=\"objectives-expanded\">\<newline></div>\<newline>'')"
    using o by (rule generateObjectivesLayout_no_items)
  then show "generateLayoutContent ops (Some content) stateVars =
      Inr (''<div class=\"objectives-expanded\">\<newline></div>\<newline>'')"
    using l c by (simp add: generateLayoutContent_def js_truthy_def js_or_def Let_def)
qed

theorem generateObjectivesLayout_empty_witness:
  "generateObjectivesLayout unit_ops (JObj [(''objectives'', JArr [])]) []
     = Inr (''<div class=\"objectives-expanded\">\<newline></div>\<newline>'')
   \<and> generateLayoutContent unit_ops (Some (JObj [(''layout'', JStr ''objectives-expanded'')])) []
     = Inr (''<div class=\"objectives-expanded\">\<newline></div>\<newline>'')"
  using generateObjectivesLayout_empty
    [where data = "JObj [(''objectives'', JArr [])]"
       and content = "JObj [(''layout'', JStr ''objectives-expanded'')]"
       and ops = unit_ops and stateVars = "[]"]
  by (simp add: js_or_def)

text \<open>
  Claim C2, as the code has it. A content value with a truthy layout name that is none of
  the seven names of the \<^verbatim>\<open>switch\<close> is rendered by the generic renderer: the fragment is
  the \<^verbatim>\<open>generic-content\<close> container around a \<^verbatim>\<open>pre\<close> block holding the layout data as JSON
  text with an indentation of two spaces, the empty object standing for absent or falsy
  layout data. A content value that is absent or falsy, or whose layout name is absent or
  falsy, is rendered as the empty string by the guard at the head of the dispatcher. In
  both cases nothing is thrown.
\<close>

theorem generateLayoutContent_unknown_layout:
  "(truthy content \<longrightarrow> js_truthy (js_prop content ''layout'') \<longrightarrow>
      (\<forall>name \<in> set named_layouts. js_prop content ''layout'' \<noteq> Some (JStr name)) \<longrightarrow>
      generateLayoutContent ops (Some content) stateVars =
        Inr (''<div class=\"generic-content\">\<newline>''
             @ ''  <pre>''
             @ JSON_stringify_2 (js_or (js_prop content ''layoutData'') (JObj []))
             @ ''</pre>\<newline>''
             @ ''</div>\<newline>''))
   \<and> ((\<not> js_truthy maybe_content \<or> \<not> js_truthy (js_prop (js_or maybe_content JNull) ''layout''))
        \<longrightarrow> generateLayoutContent ops maybe_content stateVars = Inr [])"
proof (intro conjI impI)
  assume "truthy content" and "js_truthy (js_prop content ''layout'')"
    and "\<forall>name \<in> set named_layouts. js_prop content ''layout'' \<noteq> Some (JStr name)"
  then show "generateLayoutContent ops (Some content) stateVars =
      Inr (''<div class=\"generic-content\">\<newline>''
           @ ''  <pre>''
           @ JSON_stringify_2 (js_or (js_prop content ''layoutData'') (JObj []))
           @ ''</pre>\<newline>''
           @ ''</div>\<newline>'')"
    by (simp add: generateLayoutContent_def generateGenericLayout_def named_layouts_def
        js_truthy_def js_or_def Let_def)
next
  assume "\<not> js_truthy maybe_content \<or> \<not> js_truthy (js_prop (js_or maybe_content JNull) ''layout'')"
  then show "generateLayoutContent ops maybe_content stateVars = Inr []"
    by (simp add: generateLayoutContent_def)
qed

theorem generateLayoutContent_unknown_layout_witness:
  "generateLayoutContent unit_ops
     (Some (JObj [(''layout'', JStr ''timeline''), (''layoutData'', JObj [(''year'', JNum ''2025'')])]))
     []
     = Inr (''<div class=\"generic-content\">\<newline>''
            @ ''  <pre>{\<newline>  \"year\": 2025\<newline>}</pre>\<newline>''
            @ ''</div>\<newline>'')
   \<and> generateLayoutContent unit_ops (Some (JObj [(''layout'', JStr '''')])) [] = Inr []"
  using generateLayoutContent_unknown_layout
    [of "JObj [(''layout'', JStr ''timeline''), (''layoutData'', JObj [(''year'', JNum ''2025'')])]"
        unit_ops "[]" "Some (JObj [(''layout'', JStr '''')])"]
  by (simp add: named_layouts_def js_truthy_def js_or_def JSON_stringify_2_def json_quote_def
      quote_char_def)

text \<open>
  Claim C2 as the specification words it fails when the layout name is absent: the
  dispatcher returns the empty string, not the fragment of the generic renderer.
\<close>

theorem generateLayoutContent_absent_layout_counterexample:
  "generateLayoutContent unit_ops (Some (JObj [(''layoutData'', JObj [(''year'', JNum ''2025'')])])) []
     = Inr []
   \<and> generateLayoutContent unit_ops (Some (JObj [(''layoutData'', JObj [(''year'', JNum ''2025'')])])) []
     \<noteq> Inr (generateGenericLayout (JObj [(''year'', JNum ''2025'')]) [])"
  by (simp add: generateLayoutContent_def generateGenericLayout_def js_truthy_def js_or_def)

section \<open>Properties of the validator\<close>

lemma metadata_errors_empty:
  "metadata_errors data = [] \<longleftrightarrow>
     js_truthy (js_prop data ''metadata'')
     \<and> js_truthy (js_prop (js_or (js_prop data ''metadata'') JNull) ''lChapter'')
     \<and> js_truthy (js_prop (js_or (js_prop data ''metadata'') JNull) ''title'')
     \<and> js_prop (js_or (js_prop data ''metadata'') JNull) ''hasStateVariables'' \<noteq> None"
  by (simp add: metadata_errors_def Let_def)

lemma slide_warnings_thrown:
  "snd (slide_warnings index slides) = (if JNull \<in> set slides then Some TypeError else None)"
  by (induction slides arbitrary: index) (auto simp: Let_def)

lemma variable_warnings_thrown:
  "snd (variable_warnings data) =
     (if js_truthy (js_prop data ''metadata'')
         \<and> js_truthy (js_prop (js_or (js_prop data ''metadata'') JNull) ''hasStateVariables'')
         \<and> (case js_or (js_prop (js_or (js_prop data ''metadata'') JNull) ''stateVariablesUsed'')
                      (JArr []) of
               JArr xs \<Rightarrow> False | JStr s \<Rightarrow> False | other \<Rightarrow> True)
      then Some TypeError else None)"
  by (cases "js_or (js_prop (js_or (js_prop data ''metadata'') JNull) ''stateVariablesUsed'')
                (JArr [])")
     (simp_all add: variable_warnings_def Let_def)

lemma validate_document_errors:
  assumes "data \<noteq> JNull"
  shows "errors (fst (validate_document data)) =
           metadata_errors data
           @ (if isArray (js_prop data ''slides'') then []
              else [''Missing or invalid slides array''])"
  using assms
  by (auto simp: validate_document_def Let_def split: option.splits json.splits prod.splits)

lemma validate_document_thrown:
  "snd (validate_document data) = (if checks_throw data then Some TypeError else None)"
proof (cases "data = JNull")
  case True
  then show ?thesis by (simp add: validate_document_def checks_throw_def)
next
  case False
  show ?thesis
  proof (cases "isArray (js_prop data ''slides'')")
    case True
    then obtain slides where s: "js_prop data ''slides'' = Some (JArr slides)"
      by (auto elim: isArray.elims)
    show ?thesis
    proof (cases "JNull \<in> set slides")
      case True
      have "snd (slide_warnings 0 slides) = Some TypeError"
        using True by (simp add: slide_warnings_thrown)
      then have "snd (validate_document data) = Some TypeError"
        using False s
        by (cases "slide_warnings 0 slides") (simp add: validate_document_def Let_def)
      moreover have "checks_throw data"
        using True s by (simp add: checks_throw_def)
      ultimately show ?thesis by simp
    next
      case noNull: False
      have "snd (slide_warnings 0 slides) = None"
        using noNull by (simp add: slide_warnings_thrown)
      then have "snd (validate_document data) = snd (variable_warnings data)"
        using False s
        by (cases "slide_warnings 0 slides") (simp add: validate_document_def Let_def)
      then show ?thesis
        using False s noNull
        by (simp add: variable_warnings_thrown checks_throw_def)
    qed
  next
    case noSlides: False
    then have "snd (validate_document data) = snd (variable_warnings data)"
      using False
      by (auto simp: validate_document_def Let_def split: option.splits json.splits)
    moreover have "(case js_prop data ''slides'' of
                      Some (JArr slides) \<Rightarrow> JNull \<in> set slides | other \<Rightarrow> False) = False"
      using noSlides by (auto split: option.splits json.splits)
    ultimately show ?thesis
      using False
      by (simp add: variable_warnings_thrown checks_throw_def)
  qed
qed

lemma validate_document_no_hard_error:
  assumes "data \<noteq> JNull"
  shows "errors (fst (validate_document data)) = [] \<longleftrightarrow> no_hard_error data"
  unfolding validate_document_errors [OF assms] no_hard_error_def
  by (simp add: metadata_errors_empty)

lemma validateContentJSON_iff:
  "validateContentJSON (Inr data) \<longleftrightarrow> no_hard_error data \<and> \<not> checks_throw data"
proof (cases "data = JNull")
  case True
  then show ?thesis
    by (simp add: validateContentJSON_def validate_document_def checks_throw_def)
next
  case False
  have "validateContentJSON (Inr data) \<longleftrightarrow>
      snd (validate_document data) = None \<and> errors (fst (validate_document data)) = []"
    by (simp add: validateContentJSON_def split: option.splits)
  then show ?thesis
    by (simp add: validate_document_thrown validate_document_no_hard_error [OF False] conj_commute)
qed

text \<open>
  Claim C6, as the code has it. The validator returns pass exactly when the document has
  none of the hard errors (metadata, its chapter id and its title are present and truthy,
  \<^verbatim>\<open>hasStateVariables\<close> is defined, slides is an array) and the checks run to their end
  without an exception: the \<^verbatim>\<open>catch\<close> of the validator turns every exception into fail, and
  the checks throw on a document that is \<^verbatim>\<open>null\<close>, on a \<^verbatim>\<open>null\<close> entry of the slides array,
  and on a \<^verbatim>\<open>stateVariablesUsed\<close> that cannot be iterated when \<^verbatim>\<open>hasStateVariables\<close> is
  truthy. On a document that is not \<^verbatim>\<open>null\<close> the list of errors is empty exactly when there
  is no hard error. The warnings do not occur in the condition: they never change the
  result. A file that cannot be read or parsed fails, and so does a document without
  \<^verbatim>\<open>metadata.title\<close>.
\<close>

theorem validateContentJSON_pass_iff:
  "(validateContentJSON (Inr data) \<longleftrightarrow> no_hard_error data \<and> \<not> checks_throw data)
   \<and> (data \<noteq> JNull \<longrightarrow>
        (errors (fst (validate_document data)) = [] \<longleftrightarrow> no_hard_error data))
   \<and> \<not> validateContentJSON (Inl e)
   \<and> (js_prop (js_or (js_prop data ''metadata'') JNull) ''title'' = None \<longrightarrow>
        \<not> validateContentJSON (Inr data))"
proof (intro conjI impI)
  show "validateContentJSON (Inr data) \<longleftrightarrow> no_hard_error data \<and> \<not> checks_throw data"
    by (rule validateContentJSON_iff)
next
  assume "data \<noteq> JNull"
  then show "errors (fst (validate_document data)) = [] \<longleftrightarrow> no_hard_error data"
    by (rule validate_document_no_hard_error)
next
  show "\<not> validateContentJSON (Inl e)"
    by (simp add: validateContentJSON_def)
next
  assume "js_prop (js_or (js_prop data ''metadata'') JNull) ''title'' = None"
  then have "\<not> no_hard_error data"
    by (simp add: no_hard_error_def js_truthy_def)
  then show "\<not> validateContentJSON (Inr data)"
    by (simp add: validateContentJSON_iff)
qed

lemma complete_doc_warnings:
  "warnings (fst (validate_document complete_doc)) = [''Slide 0: missing content'']"
  by (simp add: complete_doc_def validate_document_def metadata_errors_def variable_warnings_def
      js_truthy_def js_or_def Let_def decimal.simps digit_char_def)

theorem validateContentJSON_pass_iff_witness:
  "validateContentJSON (Inr complete_doc)
   \<and> warnings (fst (validate_document complete_doc)) = [''Slide 0: missing content'']
   \<and> errors (fst (validate_document complete_doc)) = []
   \<and> \<not> validateContentJSON (Inr untitled_doc)"
  using validateContentJSON_pass_iff [of complete_doc ReadError]
    validateContentJSON_pass_iff [of untitled_doc ReadError]
  by (simp add: complete_doc_warnings)
     (simp add: complete_doc_def untitled_doc_def no_hard_error_def checks_throw_def
        js_truthy_def js_or_def)

text \<open>
  Claim C6 as the specification words it fails on a document whose slides array holds
  \<^verbatim>\<open>null\<close>: no hard error is found, and the validator returns fail.
\<close>

theorem validateContentJSON_null_slide_counterexample:
  "errors (fst (validate_document null_slide_doc)) = []
   \<and> \<not> validateContentJSON (Inr null_slide_doc)"
  by (simp add: null_slide_doc_def validateContentJSON_def validate_document_def
      metadata_errors_def js_truthy_def js_or_def Let_def)

lemma validation_console_thrown:
  assumes "checks_throw data"
  shows "validation_console filePath (Inr data) = [Validating filePath, Rule, Failed TypeError, Rule]"
  using assms by (simp add: validation_console_def validate_document_thrown)

lemma validation_console_errors:
  assumes "\<not> checks_throw data" and "err \<in> set (errors (fst (validate_document data)))"
  shows "Item err \<in> set (validation_console filePath (Inr data))"
proof -
  have "errors (fst (validate_document data)) \<noteq> []"
    using assms(2) by auto
  then show ?thesis
    using assms by (simp add: validation_console_def validate_document_thrown Let_def)
qed

text \<open>
  Claim C9, as the code has it. For a document whose \<^verbatim>\<open>metadata.title\<close> or
  \<^verbatim>\<open>metadata.lChapter\<close> is the empty string the validator returns fail, as if the key were
  absent. When the checks finish without an exception, the report it prints lists the
  error of the missing field. When a check throws, the \<^verbatim>\<open>catch\<close> prints the failure alone:
  the error of the missing field, though found, is not reported.
\<close>

theorem validateContentJSON_empty_string_is_missing:
  assumes "js_prop data ''metadata'' = Some metadata"
  shows "(js_prop metadata ''title'' = Some (JStr []) \<longrightarrow>
            \<not> validateContentJSON (Inr data)
            \<and> (\<not> checks_throw data \<longrightarrow>
                 Item ''Missing metadata.title'' \<in> set (validation_console filePath (Inr data)))
            \<and> (checks_throw data \<longrightarrow>
                 validation_console filePath (Inr data)
                   = [Validating filePath, Rule, Failed TypeError, Rule]))
         \<and> (js_prop metadata ''lChapter'' = Some (JStr []) \<longrightarrow>
            \<not> validateContentJSON (Inr data)
            \<and> (\<not> checks_throw data \<longrightarrow>
                 Item ''Missing metadata.lChapter'' \<in> set (validation_console filePath (Inr data)))
            \<and> (checks_throw data \<longrightarrow>
                 validation_console filePath (Inr data)
                   = [Validating filePath, Rule, Failed TypeError, Rule]))"
proof -
  have d: "data \<noteq> JNull"
    using assms by (cases data) simp_all
  have m: "truthy metadata" if "js_prop metadata name = Some v" for name v
    using that by (cases metadata) simp_all
  have e: "set (metadata_errors data) \<subseteq> set (errors (fst (validate_document data)))"
    by (simp add: validate_document_errors [OF d])
  have f: "\<not> validateContentJSON (Inr data)" if "x \<in> set (metadata_errors data)" for x
  proof -
    have "metadata_errors data \<noteq> []"
      using that by auto
    then have "\<not> no_hard_error data"
      using metadata_errors_empty [of data] by (simp add: no_hard_error_def)
    then show ?thesis by (simp add: validateContentJSON_iff)
  qed
  have g: "Item x \<in> set (validation_console filePath (Inr data))"
    if "x \<in> set (metadata_errors data)" and "\<not> checks_throw data" for x
    using that e by (intro validation_console_errors) auto
  have t: "''Missing metadata.title'' \<in> set (metadata_errors data)"
    if "js_prop metadata ''title'' = Some (JStr [])"
    using assms that m [OF that] by (simp add: metadata_errors_def js_truthy_def js_or_def Let_def)
  have l: "''Missing metadata.lChapter'' \<in> set (metadata_errors data)"
    if "js_prop metadata ''lChapter'' = Some (JStr [])"
    using assms that m [OF that] by (simp add: metadata_errors_def js_truthy_def js_or_def Let_def)
  show ?thesis
    using f [OF t] g [OF t] f [OF l] g [OF l] validation_console_thrown [of data filePath]
    by blast
qed

theorem validateContentJSON_empty_string_is_missing_witness:
  "\<not> validateContentJSON (Inr empty_title_doc)
   \<and> validation_console ''L-01.json'' (Inr empty_title_doc)
       = [Validating ''L-01.json'', Rule, ErrorsHeading, Item ''Missing metadata.lChapter'',
          Item ''Missing metadata.title'', Rule]"
proof -
  have c: "validation_console ''L-01.json'' (Inr empty_title_doc)
       = [Validating ''L-01.json'', Rule, ErrorsHeading, Item ''Missing metadata.lChapter'',
          Item ''Missing metadata.title'', Rule]"
    by (simp add: validation_console_def empty_title_doc_def validate_document_def
        metadata_errors_def variable_warnings_def js_truthy_def js_or_def Let_def)
  show ?thesis
    using validateContentJSON_empty_string_is_missing
      [of empty_title_doc
          "JObj [(''lChapter'', JStr ''''), (''title'', JStr ''''),
                 (''hasStateVariables'', JBool False)]" "''L-01.json''"]
      c
    by (simp add: empty_title_doc_def)
qed

text \<open>
  Claim C9 as the specification words it fails on a document with an empty title whose
  slides array holds \<^verbatim>\<open>null\<close>: the validator returns fail, and what it prints is the
  failure of the check that threw, without the error of the missing title.
\<close>

theorem validateContentJSON_unreported_title_counterexample:
  "validation_console ''L-01.json'' (Inr empty_title_null_slide_doc)
     = [Validating ''L-01.json'', Rule, Failed TypeError, Rule]
   \<and> Item ''Missing metadata.title''
       \<notin> set (validation_console ''L-01.json'' (Inr empty_title_null_slide_doc))
   \<and> errors (fst (validate_document empty_title_null_slide_doc)) = [''Missing metadata.title'']"
  by (simp add: validation_console_def empty_title_null_slide_doc_def validate_document_def
      metadata_errors_def js_truthy_def js_or_def Let_def)

section \<open>Properties of the state variable detection\<close>

lemma js_includes_iff: "js_includes s p \<longleftrightarrow> (\<exists>a b. s = a @ p @ b)"
proof (induction s)
  case Nil
  then show ?case by auto
next
  case (Cons c cs)
  show ?case
  proof
    assume "js_includes (c # cs) p"
    then consider "prefix p (c # cs)" | "js_includes cs p" by auto
    then show "\<exists>a b. c # cs = a @ p @ b"
    proof cases
      case 1
      then obtain b where "c # cs = p @ b" by (auto elim: prefixE)
      then have "c # cs = [] @ p @ b" by simp
      then show ?thesis by blast
    next
      case 2
      then obtain a b where "cs = a @ p @ b" using Cons.IH by blast
      then have "c # cs = (c # a) @ p @ b" by simp
      then show ?thesis by blast
    qed
  next
    assume "\<exists>a b. c # cs = a @ p @ b"
    then obtain a b where e: "c # cs = a @ p @ b" by blast
    show "js_includes (c # cs) p"
    proof (cases a)
      case Nil
      then have "prefix p (c # cs)" using e by (simp add: prefixI)
      then show ?thesis by simp
    next
      case (Cons a0 a')
      then have "cs = a' @ p @ b" using e by simp
      then have "js_includes cs p" using Cons.IH by blast
      then show ?thesis by simp
    qed
  qed
qed

lemma match_placeholder_SomeD:
  assumes "match_placeholder s = Some name"
  shows "name \<noteq> []" and "\<forall>c \<in> set name. is_upper_us c"
    and "\<exists>r. s = ''{{'' @ name @ ''}}'' @ r"
proof -
  from assms have p: "prefix ''{{'' s"
    and n: "name = takeWhile is_upper_us (drop 2 s)"
    and ne: "name \<noteq> []"
    and q: "prefix ''}}'' (dropWhile is_upper_us (drop 2 s))"
    by (auto simp: match_placeholder_def Let_def split: if_splits)
  show "name \<noteq> []" by (rule ne)
  show "\<forall>c \<in> set name. is_upper_us c"
    unfolding n by (auto dest: set_takeWhileD)
  from p obtain t where t: "s = ''{{'' @ t" by (auto elim: prefixE)
  from q obtain r where r: "dropWhile is_upper_us (drop 2 s) = ''}}'' @ r"
    by (auto elim: prefixE)
  have n': "takeWhile is_upper_us t = name"
    using n t by simp
  have d: "dropWhile is_upper_us t = ''}}'' @ r"
    using r t by simp
  have "t = name @ ''}}'' @ r"
    using takeWhile_dropWhile_id [of is_upper_us t] unfolding n' d by simp
  then show "\<exists>r. s = ''{{'' @ name @ ''}}'' @ r"
    using t by simp
qed

lemma not_upper_braces: "\<not> is_upper_us (CHR ''{'')" "\<not> is_upper_us (CHR ''}'')"
  by (simp_all add: is_upper_us_def)

lemma match_placeholder_at:
  assumes "n \<noteq> []" and "\<forall>c \<in> set n. is_upper_us c"
  shows "match_placeholder (placeholder_of n @ b) = Some n"
proof -
  have "takeWhile is_upper_us (n @ ''}}'' @ b) = n"
    using assms(2) by (simp add: takeWhile_append2 not_upper_braces)
  moreover have "dropWhile is_upper_us (n @ ''}}'' @ b) = ''}}'' @ b"
    using assms(2) by (simp add: dropWhile_append2 not_upper_braces)
  ultimately show ?thesis
    using assms(1) by (simp add: match_placeholder_def placeholder_of_def)
qed

lemma append_before_first:
  "xs @ r = a @ c # w \<Longrightarrow> c \<notin> set xs \<Longrightarrow> \<exists>t. a = xs @ t"
proof (induction xs arbitrary: a)
  case Nil
  then show ?case by simp
next
  case (Cons x xs)
  show ?case
  proof (cases a)
    case Nil
    with Cons.prems show ?thesis by simp
  next
    case (Cons y a')
    with Cons.prems have "xs @ r = a' @ c # w" and "c \<notin> set xs" and "x = y" by simp_all
    with Cons.IH obtain t where "a' = xs @ t" by blast
    with \<open>x = y\<close> Cons show ?thesis by simp
  qed
qed


lemma drop_length_append: "length xs = k \<Longrightarrow> drop k (xs @ ys) = ys"
  by simp

lemma js_includes_drop: "js_includes (drop k s) p \<Longrightarrow> js_includes s p"
proof -
  assume "js_includes (drop k s) p"
  then obtain a b where "drop k s = a @ p @ b"
    by (auto simp: js_includes_iff)
  then have "s = (take k s @ a) @ p @ b"
    by (metis append_take_drop_id append.assoc)
  then show ?thesis
    unfolding js_includes_iff by blast
qed

lemma placeholder_names_sound:
  "n \<in> set (placeholder_names s) \<Longrightarrow>
     n \<noteq> [] \<and> (\<forall>c \<in> set n. is_upper_us c) \<and> js_includes s (placeholder_of n)"
proof (induction s rule: placeholder_names.induct)
  case 1
  then show ?case by simp
next
  case (2 c cs)
  show ?case
  proof (cases "match_placeholder (c # cs)")
    case None
    with "2.prems" have "n \<in> set (placeholder_names cs)" by simp
    with "2.IH"(1) [OF None] show ?thesis by simp
  next
    case (Some m)
    with "2.prems" consider "n = m" | "n \<in> set (placeholder_names (drop (length m + 4) (c # cs)))"
      by auto
    then show ?thesis
    proof cases
      case 1
      from match_placeholder_SomeD [OF Some] obtain r where
        "m \<noteq> []" "\<forall>c \<in> set m. is_upper_us c" "c # cs = [] @ placeholder_of m @ r"
        by (auto simp: placeholder_of_def)
      then show ?thesis
        unfolding 1 js_includes_iff by blast
    next
      case 2
      with "2.IH"(2) [OF Some] show ?thesis
        by (blast intro: js_includes_drop)
    qed
  qed
qed

lemma placeholder_names_complete:
  assumes "n \<noteq> []" and "\<forall>c \<in> set n. is_upper_us c"
  shows "s = a @ placeholder_of n @ b \<Longrightarrow> n \<in> set (placeholder_names s)"
proof (induction s arbitrary: a rule: placeholder_names.induct)
  case 1
  then show ?case by (simp add: placeholder_of_def)
next
  case (2 c cs)
  show ?case
  proof (cases a)
    case Nil
    with "2.prems" have "match_placeholder (c # cs) = Some n"
      using match_placeholder_at [OF assms] by simp
    then show ?thesis by simp
  next
    case (Cons a0 a')
    with "2.prems" have cs: "cs = a' @ placeholder_of n @ b" by simp
    show ?thesis
    proof (cases "match_placeholder (c # cs)")
      case None
      with "2.IH"(1) [OF None cs] show ?thesis by simp
    next
      case (Some m)
      from match_placeholder_SomeD [OF Some] obtain r where
        m: "m \<noteq> []" "\<forall>c \<in> set m. is_upper_us c" and s: "c # cs = ''{{'' @ m @ ''}}'' @ r"
        by blast
      have r: "drop (length m + 4) (c # cs) = r"
        unfolding s using drop_length_append [of "''{{'' @ m @ ''}}''" "length m + 4" r] by simp
      from s cs have e: "a' @ placeholder_of n @ b = CHR ''{'' # m @ ''}}'' @ r"
        by simp
      have "\<exists>t. r = t @ placeholder_of n @ b"
      proof (cases a')
        case Nil
        with e have "CHR ''{'' # n @ ''}}'' @ b = m @ ''}}'' @ r"
          by (simp add: placeholder_of_def)
        with m have False
          by (cases m) (auto simp: not_upper_braces)
        then show ?thesis ..
      next
        case (Cons a1 a'')
        with e have e': "(m @ ''}}'') @ r = a'' @ CHR ''{'' # (CHR ''{'' # n @ ''}}'' @ b)"
          by (simp add: placeholder_of_def)
        have "CHR ''{'' \<notin> set (m @ ''}}'')"
          using m(2) not_upper_braces by auto
        from append_before_first [OF e' this] obtain t where "a'' = (m @ ''}}'') @ t" ..
        with e' have "r = t @ placeholder_of n @ b"
          by (simp add: placeholder_of_def)
        then show ?thesis ..
      qed
      then obtain t where "drop (length m + 4) (c # cs) = t @ placeholder_of n @ b"
        using r by blast
      from "2.IH"(2) [OF Some this] show ?thesis
        using Some by simp
    qed
  qed
qed

lemma placeholder_names_iff:
  "n \<in> set (placeholder_names s) \<longleftrightarrow>
     n \<noteq> [] \<and> (\<forall>c \<in> set n. is_upper_us c) \<and> js_includes s (placeholder_of n)"
proof
  assume "n \<in> set (placeholder_names s)"
  then show "n \<noteq> [] \<and> (\<forall>c \<in> set n. is_upper_us c) \<and> js_includes s (placeholder_of n)"
    by (rule placeholder_names_sound)
next
  assume a: "n \<noteq> [] \<and> (\<forall>c \<in> set n. is_upper_us c) \<and> js_includes s (placeholder_of n)"
  then obtain x y where "s = x @ placeholder_of n @ y"
    by (auto simp: js_includes_iff)
  with a show "n \<in> set (placeholder_names s)"
    by (blast intro: placeholder_names_complete)
qed

lemma push_absent_set:
  "set (foldl (\<lambda>acc x. if f x \<in> set acc then acc else acc @ [f x]) acc xs) = set acc \<union> f ` set xs"
  by (induction xs arbitrary: acc) auto

lemma push_absent_distinct:
  "distinct acc \<Longrightarrow>
   distinct (foldl (\<lambda>acc x. if f x \<in> set acc then acc else acc @ [f x]) acc xs)"
  by (induction xs arbitrary: acc) auto

lemma js_Set_set: "set (js_Set xs) = set xs"
  using push_absent_set [of "\<lambda>x. x" "[]" xs] by (simp add: js_Set_def)

lemma js_Set_distinct: "distinct (js_Set xs)"
  using push_absent_distinct [of "[]" "\<lambda>x. x" xs] by (simp add: js_Set_def)

lemma strip_braces_placeholder:
  assumes "\<forall>c \<in> set n. is_upper_us c"
  shows "strip_braces (placeholder_of n) = n"
proof -
  have "filter (\<lambda>c. c \<noteq> CHR ''{'' \<and> c \<noteq> CHR ''}'') n = n"
    using assms not_upper_braces by (intro filter_True) auto
  then show ?thesis
    by (simp add: strip_braces_def placeholder_of_def)
qed

lemma strip_braces_names:
  "strip_braces ` placeholder_of ` set (placeholder_names s) = set (placeholder_names s)"
proof -
  have "strip_braces (placeholder_of n) = n" if "n \<in> set (placeholder_names s)" for n
    using placeholder_names_sound [OF that] by (simp add: strip_braces_placeholder)
  then show ?thesis by (auto simp: image_iff)
qed

lemma found_after_matches:
  "set (case regex_matches s of
          None \<Rightarrow> known
        | Some matches \<Rightarrow>
            foldl (\<lambda>found m.
                     if strip_braces m \<in> set found then found else found @ [strip_braces m])
              known matches)
     = set known \<union> set (placeholder_names s)"
proof (cases "placeholder_names s")
  case Nil
  then show ?thesis by (simp add: regex_matches_def)
next
  case (Cons name names)
  then have "regex_matches s = Some (map placeholder_of (placeholder_names s))"
    by (simp add: regex_matches_def)
  then show ?thesis
    using push_absent_set [of strip_braces known "map placeholder_of (placeholder_names s)"]
      strip_braces_names [of s]
    by simp
qed

lemma known_names_filter:
  "set (filter (\<lambda>varName. js_includes s (placeholder_of varName) \<or> js_includes s varName)
          STATE_VARIABLES) = known_names_in s"
proof -
  have "js_includes s v" if "js_includes s (placeholder_of v)" for v
  proof -
    from that obtain a b where "s = a @ placeholder_of v @ b"
      by (auto simp: js_includes_iff)
    then have "s = (a @ ''{{'') @ v @ (''}}'' @ b)"
      by (simp add: placeholder_of_def)
    then show ?thesis
      unfolding js_includes_iff by blast
  qed
  then show ?thesis
    by (auto simp: known_names_in_def)
qed

lemma placeholder_tokens_names: "set (placeholder_names s) = placeholder_tokens s"
  by (auto simp: placeholder_tokens_def placeholder_names_iff list_all_iff)

lemma detectStateVariables_set:
  "set (detectStateVariables content) =
     placeholder_tokens (JSON_stringify content) \<union> known_names_in (JSON_stringify content)"
  unfolding detectStateVariables_def Let_def js_Set_set found_after_matches known_names_filter
    placeholder_tokens_names
  by (rule Un_commute)

text \<open>
  Claim C7. The names \<^verbatim>\<open>detectStateVariables\<close> returns are, without duplicates, the union
  of the \<^verbatim>\<open>{{UPPER_SNAKE_CASE}}\<close> tokens of the serialized document and of the names of the
  fixed list that occur in it literally. In the document the converter returns,
  \<^verbatim>\<open>metadata.stateVariablesUsed\<close> is the array of the names detected in the assembled
  document, and \<^verbatim>\<open>metadata.hasStateVariables\<close> is \<^verbatim>\<open>true\<close> exactly when that set of names is
  not empty; the document serialized for the detection is the assembled one, in which the
  two fields still are \<^verbatim>\<open>false\<close> and the empty array, and the slides are the same in both.
\<close>

theorem convertHtmlToJson_state_variables:
  "set (detectStateVariables content) =
     placeholder_tokens (JSON_stringify content) \<union> known_names_in (JSON_stringify content)
   \<and> distinct (detectStateVariables content)
   \<and> metadata_field (convertHtmlToJson_output lChapter mainTitle subtitle slides)
         ''stateVariablesUsed''
       = Some (JArr (map JStr
           (detectStateVariables (document_of lChapter mainTitle subtitle slides False []))))
   \<and> metadata_field (convertHtmlToJson_output lChapter mainTitle subtitle slides)
         ''hasStateVariables''
       = Some (JBool
           (placeholder_tokens
              (JSON_stringify (document_of lChapter mainTitle subtitle slides False []))
            \<union> known_names_in
                (JSON_stringify (document_of lChapter mainTitle subtitle slides False []))
            \<noteq> {}))
   \<and> metadata_field (document_of lChapter mainTitle subtitle slides False [])
         ''stateVariablesUsed'' = Some (JArr [])
   \<and> metadata_field (document_of lChapter mainTitle subtitle slides False [])
         ''hasStateVariables'' = Some (JBool False)
   \<and> js_prop (document_of lChapter mainTitle subtitle slides False []) ''slides''
       = Some (JArr slides)
   \<and> js_prop (convertHtmlToJson_output lChapter mainTitle subtitle slides) ''slides''
       = Some (JArr slides)"
proof -
  let ?doc = "document_of lChapter mainTitle subtitle slides False []"
  have e: "(length (detectStateVariables ?doc) > 0) =
      (placeholder_tokens (JSON_stringify ?doc) \<union> known_names_in (JSON_stringify ?doc) \<noteq> {})"
    using detectStateVariables_set [of ?doc] by auto
  have "distinct (detectStateVariables content)"
    by (simp add: detectStateVariables_def Let_def js_Set_distinct)
  moreover have "metadata_field (convertHtmlToJson_output lChapter mainTitle subtitle slides)
      ''hasStateVariables''
    = Some (JBool (placeholder_tokens (JSON_stringify ?doc)
                   \<union> known_names_in (JSON_stringify ?doc) \<noteq> {}))"
    unfolding e [symmetric]
    by (simp add: convertHtmlToJson_output_def document_of_def metadata_field_def js_or_def Let_def)
  ultimately show ?thesis
    using detectStateVariables_set [of content]
    by (simp add: convertHtmlToJson_output_def document_of_def metadata_field_def js_or_def
        Let_def)
qed

lemma sample_detected:
  "detectStateVariables (document_of ''L-02'' ''Banking'' ''Basics'' sample_slides False [])
     = [''MEDIAN_RENT'', ''RENT'', ''CITY'']"
  by code_simp

theorem convertHtmlToJson_state_variables_witness:
  "metadata_field (convertHtmlToJson_output ''L-02'' ''Banking'' ''Basics'' sample_slides)
     ''stateVariablesUsed'' = Some (JArr [JStr ''MEDIAN_RENT'', JStr ''RENT'', JStr ''CITY''])
   \<and> placeholder_tokens
        (JSON_stringify (document_of ''L-02'' ''Banking'' ''Basics'' sample_slides False []))
       \<union> known_names_in
           (JSON_stringify (document_of ''L-02'' ''Banking'' ''Basics'' sample_slides False []))
       = {''MEDIAN_RENT'', ''RENT'', ''CITY''}
   \<and> metadata_field (convertHtmlToJson_output ''L-02'' ''Banking'' ''Basics'' sample_slides)
       ''hasStateVariables'' = Some (JBool True)"
proof -
  let ?doc = "document_of ''L-02'' ''Banking'' ''Basics'' sample_slides False []"
  note t = convertHtmlToJson_state_variables
    [of ?doc "''L-02''" "''Banking''" "''Basics''" sample_slides]
  have u: "placeholder_tokens (JSON_stringify ?doc) \<union> known_names_in (JSON_stringify ?doc)
      = {''MEDIAN_RENT'', ''RENT'', ''CITY''}"
    using t sample_detected by simp
  have "{''MEDIAN_RENT'', ''RENT'', ''CITY''} \<noteq> ({} :: string set)"
    by simp
  with t u show ?thesis
    by (simp only: sample_detected list.map simp_thms)
qed

section \<open>The calculated fields in binary64 arithmetic\<close>

subsection \<open>The error of one rounding\<close>

text \<open>A positive integer lies between the powers of two that its bit length gives.\<close>

lemma bit_length_bounds:
  "0 < n \<Longrightarrow> 1 \<le> bit_length n \<and> 2 ^ nat (bit_length n - 1) \<le> n \<and> n < 2 ^ nat (bit_length n)"
proof (induction n rule: bit_length.induct)
  case (1 n)
  have s: "bit_length n = bit_length (n div 2) + 1"
    using "1.prems" by (subst bit_length.simps) simp
  show ?case
  proof (cases "n div 2 = 0")
    case True
    then have "n = 1" using "1.prems" by linarith
    moreover have "bit_length 0 = 0" by (subst bit_length.simps) simp
    ultimately show ?thesis using s True by simp
  next
    case False
    then have m: "0 < n div 2" using "1.prems" by linarith
    have "\<not> n \<le> 0" using "1.prems" by simp
    from "1.IH" [OF this m] have ih: "1 \<le> bit_length (n div 2)"
      "2 ^ nat (bit_length (n div 2) - 1) \<le> n div 2" "n div 2 < 2 ^ nat (bit_length (n div 2))"
      by simp_all
    have e: "nat (bit_length (n div 2)) = Suc (nat (bit_length (n div 2) - 1))"
      using ih(1) by linarith
    have d: "n = 2 * (n div 2) + n mod 2" "0 \<le> n mod 2" "n mod 2 < 2"
      by simp_all
    have "(2::int) ^ nat (bit_length (n div 2)) \<le> n"
      unfolding e using ih(2) d by simp
    moreover have "n < 2 * 2 ^ nat (bit_length (n div 2))"
      using ih(3) d by linarith
    ultimately show ?thesis
      using ih(1) by (simp add: s nat_add_distrib)
  qed
qed

lemma power_int_nat: "0 \<le> k \<Longrightarrow> (2::rat) powi k = 2 ^ nat k"
  by (simp add: power_int_def)

text \<open>The power of two of the binary exponent is not above the number.\<close>

lemma ilog2_le:
  assumes "0 < a"
  shows "2 powi (ilog2 a) \<le> a"
proof -
  obtain p q where pq: "quotient_of a = (p, q)" by (cases "quotient_of a")
  have q: "0 < q" using pq by (rule quotient_of_denom_pos)
  have a: "a = of_int p / of_int q" using pq by (rule quotient_of_div)
  have p: "0 < p"
    using assms q unfolding a by (simp add: zero_less_divide_iff)
  let ?e = "bit_length p - bit_length q"
  show ?thesis
  proof (cases "2 powi ?e \<le> a")
    case True
    then show ?thesis by (simp add: ilog2_def pq)
  next
    case False
    have bp: "(2::rat) powi (bit_length p - 1) \<le> of_int p"
    proof -
      have "(2::int) ^ nat (bit_length p - 1) \<le> p" "1 \<le> bit_length p"
        using bit_length_bounds [OF p] by simp_all
      then have "(of_int (2 ^ nat (bit_length p - 1)) :: rat) \<le> of_int p"
        by (simp only: of_int_le_iff)
      then show ?thesis
        using \<open>1 \<le> bit_length p\<close> by (simp add: power_int_nat)
    qed
    have bq: "of_int q \<le> (2::rat) powi (bit_length q)"
    proof -
      have "q < 2 ^ nat (bit_length q)" "1 \<le> bit_length q"
        using bit_length_bounds [OF q] by simp_all
      then have "(of_int q :: rat) \<le> of_int (2 ^ nat (bit_length q))"
        by (simp only: of_int_le_iff)
      then show ?thesis
        using \<open>1 \<le> bit_length q\<close> by (simp add: power_int_nat)
    qed
    have "(2::rat) powi (?e - 1) = 2 powi (bit_length p - 1) / 2 powi (bit_length q)"
      using power_int_diff [of "2::rat" "bit_length p - 1" "bit_length q"]
      by (simp add: algebra_simps)
    also have "\<dots> \<le> of_int p / of_int q"
      using bp bq q p by (intro frac_le) simp_all
    finally have "(2::rat) powi (?e - 1) \<le> a"
      by (simp only: a)
    then show ?thesis
      using False by (simp add: ilog2_def pq)
  qed
qed

lemma round_half_even_error: "\<bar>of_int (round_half_even x) - x\<bar> \<le> 1 / 2"
proof -
  have "of_int \<lfloor>x\<rfloor> \<le> x" "x < of_int \<lfloor>x\<rfloor> + 1"
    by linarith+
  then show ?thesis
    by (auto simp: round_half_even_def Let_def)
qed


text \<open>A number below \<open>2\<^sup>4\<^sup>2\<close> is far from the overflow threshold.\<close>

lemma ilog2_small:
  assumes "v < 2 ^ 42"
  shows "ilog2 v < 1024"
proof (cases "0 < v")
  case True
  have le: "2 powi (ilog2 v) \<le> v"
    by (rule ilog2_le [OF True])
  show ?thesis
  proof (rule ccontr)
    assume "\<not> ilog2 v < 1024"
    then have "(42::int) \<le> ilog2 v"
      by simp
    then have "(2::rat) powi 42 \<le> 2 powi (ilog2 v)"
      by (intro power_int_increasing) simp_all
    moreover have "(2::rat) powi 42 = 2 ^ 42"
      by (simp add: power_int_def)
    ultimately show False
      using assms le by linarith
  qed
next
  case False
  obtain p q where pq: "quotient_of v = (p, q)"
    by (cases "quotient_of v")
  have q: "0 < q"
    using pq by (rule quotient_of_denom_pos)
  have v: "v = of_int p / of_int q"
    using pq by (rule quotient_of_div)
  have "p \<le> 0"
    using False q unfolding v by (simp add: divide_le_0_iff not_less)
  then have "bit_length p = 0"
    by (subst bit_length.simps) simp
  moreover have "1 \<le> bit_length q"
    using bit_length_bounds [OF q] by simp
  ultimately show ?thesis
    by (simp add: ilog2_def pq Let_def)
qed

text \<open>
  A result of magnitude at most \<open>M\<close>, with \<open>M \<le> 2\<^sup>4\<^sup>0\<close>, rounds to a finite number that is
  within \<open>(M + 1) / 2\<^sup>5\<^sup>3\<close> of it: half the last place, which is at most \<open>M / 2\<^sup>5\<^sup>2\<close> for a
  normal number and \<open>2\<^sup>-\<^sup>1\<^sup>0\<^sup>7\<^sup>4\<close> for a subnormal one.
\<close>

lemma round_double_error:
  assumes M: "\<bar>r\<bar> \<le> M" and small: "M \<le> 2 ^ 40"
  shows "\<exists>v. round_double r = Finite v \<and> \<bar>v - r\<bar> \<le> (M + 1) / 2 ^ 53"
proof (cases "r = 0")
  case True
  then show ?thesis
    using M by (simp add: round_double_def)
next
  case False
  define a where "a = \<bar>r\<bar>"
  define q where "q = max (ilog2 a - 52) (- 1074)"
  define P where "P = (2::rat) powi q"
  define m where "m = round_half_even (a / P)"
  define v where "v = of_int m * P"
  have a: "0 < a"
    using False by (simp add: a_def)
  have P: "0 < P"
    by (simp add: P_def)
  have Pb: "P \<le> (a + 1) / 2 ^ 52"
  proof (cases "ilog2 a - 52 \<le> - 1074")
    case True
    then have "q = - 1074"
      by (simp add: q_def)
    then have "P = 2 powi (- 1074)"
      by (simp add: P_def)
    also have "\<dots> \<le> 2 powi (- 52)"
      by (intro power_int_increasing) simp_all
    also have "(2::rat) powi (- 52) = 1 / 2 ^ 52"
      by (simp add: power_int_def field_simps)
    also have "\<dots> \<le> (a + 1) / 2 ^ 52"
      using a by (intro divide_right_mono) simp_all
    finally show ?thesis .
  next
    case False
    then have "q = ilog2 a - 52"
      by (simp add: q_def)
    then have "P = 2 powi (ilog2 a) / 2 powi 52"
      unfolding P_def by (simp add: power_int_diff)
    also have "\<dots> = 2 powi (ilog2 a) / 2 ^ 52"
      by (simp add: power_int_def)
    also have "\<dots> \<le> a / 2 ^ 52"
      using ilog2_le [OF a] by (intro divide_right_mono) simp_all
    also have "\<dots> \<le> (a + 1) / 2 ^ 52"
      by (intro divide_right_mono) simp_all
    finally show ?thesis .
  qed
  have "\<bar>of_int m - a / P\<bar> \<le> 1 / 2"
    unfolding m_def by (rule round_half_even_error)
  then have "\<bar>of_int m - a / P\<bar> * P \<le> 1 / 2 * P"
    using P by (intro mult_right_mono) simp_all
  moreover have "\<bar>of_int m - a / P\<bar> * P = \<bar>v - a\<bar>"
  proof -
    have "v - a = (of_int m - a / P) * P"
      using P by (simp add: v_def field_simps)
    then show ?thesis
      using P by (simp add: abs_mult)
  qed
  ultimately have va: "\<bar>v - a\<bar> \<le> P / 2"
    by simp
  have aM: "a \<le> M"
    using M by (simp add: a_def)
  have err: "\<bar>v - a\<bar> \<le> (M + 1) / 2 ^ 53"
  proof -
    have "P / 2 \<le> (a + 1) / 2 ^ 52 / 2"
      using Pb by (intro divide_right_mono) simp_all
    also have "\<dots> = (a + 1) / 2 ^ 53"
      by simp
    also have "\<dots> \<le> (M + 1) / 2 ^ 53"
      using aM by (intro divide_right_mono) simp_all
    finally show ?thesis
      using va by linarith
  qed
  have "v < 2 ^ 42"
  proof -
    have "(M + 1) / 2 ^ 53 \<le> (M + 1) / 1"
      using aM a by (intro divide_left_mono) simp_all
    then have "(M + 1) / 2 ^ 53 \<le> M + 1"
      by (simp only: div_by_1)
    with err have "\<bar>v - a\<bar> \<le> M + 1"
      by (rule order_trans)
    then have "v \<le> a + (M + 1)"
      by linarith
    then show ?thesis
      using aM small by simp
  qed
  then have "ilog2 v < 1024"
    by (rule ilog2_small)
  then have "round_double r = Finite (if r < 0 then - v else v)"
    using False unfolding round_double_def Let_def v_def m_def P_def q_def a_def
    by simp
  moreover have "\<bar>(if r < 0 then - v else v) - r\<bar> = \<bar>v - a\<bar>"
    by (simp add: a_def abs_if)
  ultimately show ?thesis
    using err by simp
qed


subsection \<open>The text of toFixed\<close>

lemma digit_code: "k < 10 \<Longrightarrow> of_char (''0123456789'' ! k) = (48 + k :: nat)"
proof -
  assume "k < 10"
  then have "k \<in> {0, 1, 2, 3, 4, 5, 6, 7, 8, 9}"
    by auto
  then show ?thesis
    by auto
qed

lemma of_char_digit_char: "(of_char (digit_char n) :: nat) = 48 + n mod 10"
  unfolding digit_char_def by (rule digit_code) simp

lemma of_char_digit_char_int: "(of_char (digit_char n) :: int) = 48 + int (n mod 10)"
proof -
  have "(of_char (digit_char n) :: int) = int (of_char (digit_char n))"
    by (rule of_nat_of_char [symmetric])
  then show ?thesis
    by (simp only: of_char_digit_char)
qed

lemma is_digit_digit_char: "is_digit (digit_char n)"
  by (simp add: is_digit_def of_char_digit_char)

lemma digits_value_snoc: "digits_value (ds @ [c]) = 10 * digits_value ds + (of_char c - 48)"
  by (simp add: digits_value_def)

lemma decimal_of_int_value: "0 \<le> n \<Longrightarrow> digits_value (decimal_of_int n) = n"
proof (induction n rule: decimal_of_int.induct)
  case (1 n)
  show ?case
  proof (cases "n < 10")
    case True
    then show ?thesis
      using "1.prems"
      by (subst decimal_of_int.simps) (simp add: digits_value_def of_char_digit_char_int)
  next
    case False
    then have "digits_value (decimal_of_int (n div 10)) = n div 10"
      using "1.IH" "1.prems" by simp
    moreover have "nat (n mod 10) < 10"
      using pos_mod_bound [of 10 n] by linarith
    then have "(of_char (digit_char (nat (n mod 10))) :: int) - 48 = n mod 10"
      by (simp add: of_char_digit_char_int)
    ultimately show ?thesis
      using False by (subst decimal_of_int.simps) (simp add: digits_value_snoc)
  qed
qed

lemma decimal_of_int_digits: "c \<in> set (decimal_of_int n) \<Longrightarrow> is_digit c"
proof (induction n rule: decimal_of_int.induct)
  case (1 n)
  show ?case
  proof (cases "n < 10")
    case True
    then show ?thesis
      using "1.prems" by (subst (asm) decimal_of_int.simps) (simp add: is_digit_digit_char)
  next
    case False
    then show ?thesis
      using "1.prems" "1.IH"
      by (subst (asm) decimal_of_int.simps) (auto simp: is_digit_digit_char)
  qed
qed

lemma decimal_of_int_nonempty: "decimal_of_int n \<noteq> []"
  by (subst decimal_of_int.simps) simp

lemma digits_value_zeros: "digits_value (replicate k (CHR ''0'') @ ds) = digits_value ds"
proof -
  have "foldl (\<lambda>n c. 10 * n + (of_char c - 48)) (0::int) (replicate k (CHR ''0'')) = 0"
    by (induction k) simp_all
  then show ?thesis
    by (simp add: digits_value_def)
qed

lemma fixed_digits_nonneg: "0 \<le> a \<Longrightarrow> 0 \<le> fixed_digits a f"
  by (simp add: fixed_digits_def)

lemma fixed_digits_error: "\<bar>of_int (fixed_digits a 2) - 100 * a\<bar> \<le> 1 / 2"
proof -
  have e: "fixed_digits a 2 = \<lfloor>a * 100 + 1 / 2\<rfloor>"
    by (simp add: fixed_digits_def)
  have "of_int \<lfloor>a * 100 + 1 / 2\<rfloor> \<le> a * 100 + 1 / 2"
    "a * 100 + 1 / 2 < of_int \<lfloor>a * 100 + 1 / 2\<rfloor> + 1"
    by linarith+
  then show ?thesis
    unfolding e by linarith
qed

lemma length_two: "length xs = 2 \<Longrightarrow> \<exists>a b. xs = [a, b]"
  by (auto simp: length_Suc_conv numeral_2_eq_2)

text \<open>The shape of the text of \<^verbatim>\<open>toFixed(2)\<close> for a finite number below \<open>10\<^sup>2\<^sup>1\<close>.\<close>

lemma double_toFixed_shape:
  assumes "\<bar>r\<bar> < 10 ^ 21"
  shows "\<exists>whole d1 d2. double_toFixed (Finite r) 2 = (if r < 0 then ''-'' else []) @ whole @ ''.'' @ [d1, d2]
           \<and> whole \<noteq> [] \<and> (\<forall>c \<in> set whole. is_digit c) \<and> is_digit d1 \<and> is_digit d2
           \<and> digits_value (whole @ [d1, d2]) = fixed_digits \<bar>r\<bar> 2"
proof -
  define n where "n = fixed_digits \<bar>r\<bar> 2"
  define m where "m = decimal_of_int n"
  define m' where "m' = (if length m \<le> 2 then replicate (3 - length m) (CHR ''0'') @ m else m)"
  have n: "0 \<le> n"
    unfolding n_def by (rule fixed_digits_nonneg) simp
  have len: "3 \<le> length m'"
    by (simp add: m'_def)
  have digits: "\<forall>c \<in> set m'. is_digit c"
    using decimal_of_int_digits [of _ n] by (auto simp: m'_def m_def is_digit_def)
  have val: "digits_value m' = n"
    using decimal_of_int_value [OF n] by (simp add: m'_def m_def digits_value_zeros)
  have out: "double_toFixed (Finite r) 2
      = (if r < 0 then ''-'' else []) @ take (length m' - 2) m' @ ''.'' @ drop (length m' - 2) m'"
    using assms by (simp add: double_toFixed_def Let_def m'_def m_def n_def)
  have "length (drop (length m' - 2) m') = 2"
    using len by simp
  from length_two [OF this] obtain d1 d2 where d: "drop (length m' - 2) m' = [d1, d2]"
    by (elim exE)
  have split: "take (length m' - 2) m' @ [d1, d2] = m'"
    using append_take_drop_id [of "length m' - 2" m'] by (simp only: d)
  have "take (length m' - 2) m' \<noteq> []"
    using len by auto
  moreover have "\<forall>c \<in> set (take (length m' - 2) m'). is_digit c"
    using digits by (auto dest: in_set_takeD)
  moreover have "d1 \<in> set m'" "d2 \<in> set m'"
    by (subst split [symmetric], simp)+
  then have "is_digit d1" "is_digit d2"
    using digits by simp_all
  moreover have "digits_value (take (length m' - 2) m' @ [d1, d2]) = fixed_digits \<bar>r\<bar> 2"
    using val by (simp only: split n_def)
  moreover have "double_toFixed (Finite r) 2
      = (if r < 0 then ''-'' else []) @ take (length m' - 2) m' @ ''.'' @ [d1, d2]"
    using out by (simp only: d)
  ultimately show ?thesis
    by blast
qed


text \<open>
  Hence the text of an amount is a currency text, and its cents are the integer of
  \<^verbatim>\<open>toFixed\<close> with the sign of the number: within half a cent of the number.
\<close>

lemma not_digit: "\<not> is_digit (CHR ''-'')" "\<not> is_digit (CHR ''.'')" "\<not> is_digit (CHR ''$'')"
  by (simp_all add: is_digit_def)

lemma toFixed_amount:
  assumes "\<bar>r\<bar> < 10 ^ 21"
  shows "is_currency (''$'' @ double_toFixed (Finite r) 2)"
    and "cents_of_amount (''$'' @ double_toFixed (Finite r) 2)
           = (if r < 0 then - fixed_digits \<bar>r\<bar> 2 else fixed_digits \<bar>r\<bar> 2)"
proof -
  from double_toFixed_shape [OF assms] obtain whole d1 d2
    where out: "double_toFixed (Finite r) 2 = (if r < 0 then ''-'' else []) @ whole @ ''.'' @ [d1, d2]"
      and whole: "whole \<noteq> []" "\<forall>c \<in> set whole. is_digit c"
      and d: "is_digit d1" "is_digit d2"
      and val: "digits_value (whole @ [d1, d2]) = fixed_digits \<bar>r\<bar> 2"
    by blast
  have tw: "takeWhile is_digit (whole @ ''.'' @ [d1, d2]) = whole"
    using whole(2) by (simp add: takeWhile_append2 not_digit)
  have dw: "dropWhile is_digit (whole @ ''.'' @ [d1, d2]) = ''.'' @ [d1, d2]"
    using whole(2) by (simp add: dropWhile_append2 not_digit)
  have hd: "hd whole \<noteq> CHR ''-''"
    using whole not_digit(1) by (cases whole) auto
  have minus: "CHR ''-'' \<notin> set whole" "d1 \<noteq> CHR ''-''" "d2 \<noteq> CHR ''-''"
    using whole(2) d not_digit(1) by auto
  have fl: "filter is_digit whole = whole"
    using whole(2) by simp
  show "is_currency (''$'' @ double_toFixed (Finite r) 2)"
    using whole(1) d hd tw dw
    by (cases "r < 0") (simp_all add: out is_currency_def two_decimals_def)
  show "cents_of_amount (''$'' @ double_toFixed (Finite r) 2)
          = (if r < 0 then - fixed_digits \<bar>r\<bar> 2 else fixed_digits \<bar>r\<bar> 2)"
    using minus d fl val
    by (cases "r < 0") (simp_all add: out cents_of_amount_def not_digit)
qed

lemma cents_error:
  assumes "\<bar>r\<bar> < 10 ^ 21"
  shows "\<bar>of_int (cents_of_amount (''$'' @ double_toFixed (Finite r) 2)) - 100 * r\<bar> \<le> 1 / 2"
  using fixed_digits_error [of "\<bar>r\<bar>"]
  by (simp only: toFixed_amount(2) [OF assms]) (simp add: abs_if split: if_splits)

subsection \<open>The amounts and the total\<close>

lemma literal_100: "round_double 100 = Finite 100"
  by code_simp

lemma round_double_within:
  assumes "\<bar>r\<bar> \<le> M" and "M \<le> 2 ^ 40" and "(M + 1) / 2 ^ 53 \<le> E"
  shows "\<exists>v. round_double r = Finite v \<and> \<bar>v - r\<bar> \<le> E"
  using round_double_error [OF assms(1, 2)] assms(3) order_trans by blast

text \<open>
  \<^verbatim>\<open>base * rate / 100\<close> for a base amount of magnitude at most \<open>10\<^sup>6\<close> and a rate of magnitude
  at most 3002: two roundings, and the result is within \<open>10\<^sup>-\<^sup>8\<close> of the exact quotient.
\<close>

lemma amount_error:
  assumes b: "\<bar>b\<bar> \<le> 1000000" and r: "\<bar>r\<bar> \<le> 3002"
  shows "\<exists>x. double_div (double_mul (Finite b) (Finite r)) (Finite 100) = Finite x
           \<and> \<bar>x - b * r / 100\<bar> \<le> 1 / 100000000"
proof -
  have "\<bar>b * r\<bar> \<le> 1000000 * 3002"
    unfolding abs_mult using b r by (intro mult_mono) simp_all
  then have br: "\<bar>b * r\<bar> \<le> 3002000000"
    by simp
  have "\<exists>p. round_double (b * r) = Finite p \<and> \<bar>p - b * r\<bar> \<le> 4 / 10000000"
    by (rule round_double_within [OF br]) simp_all
  then obtain p where p: "round_double (b * r) = Finite p" "\<bar>p - b * r\<bar> \<le> 4 / 10000000"
    by blast
  have "\<bar>p / 100\<bar> \<le> 30020001"
    using p(2) br by linarith
  then have "\<exists>x. round_double (p / 100) = Finite x \<and> \<bar>x - p / 100\<bar> \<le> 4 / 1000000000"
    by (rule round_double_within) simp_all
  then obtain x where x: "round_double (p / 100) = Finite x" "\<bar>x - p / 100\<bar> \<le> 4 / 1000000000"
    by blast
  have "double_div (double_mul (Finite b) (Finite r)) (Finite 100) = Finite x"
    by (simp add: p(1) x(1))
  moreover have "\<bar>x - b * r / 100\<bar> \<le> 1 / 100000000"
    using p(2) x(2) by linarith
  ultimately show ?thesis
    by blast
qed

text \<open>The sum of three rates of magnitude at most 1000: two roundings.\<close>

lemma rate_sum_error:
  assumes "\<bar>r1\<bar> \<le> 1000" "\<bar>r2\<bar> \<le> 1000" "\<bar>r3\<bar> \<le> 1000"
  shows "\<exists>s. double_add (double_add (Finite r1) (Finite r2)) (Finite r3) = Finite s
           \<and> \<bar>s - (r1 + r2 + r3)\<bar> \<le> 2 / 1000000000000"
proof -
  have "\<bar>r1 + r2\<bar> \<le> 2000"
    using assms by linarith
  then have "\<exists>u. round_double (r1 + r2) = Finite u \<and> \<bar>u - (r1 + r2)\<bar> \<le> 1 / 1000000000000"
    by (rule round_double_within) simp_all
  then obtain u
    where u: "round_double (r1 + r2) = Finite u" "\<bar>u - (r1 + r2)\<bar> \<le> 1 / 1000000000000"
    by blast
  have "\<bar>u + r3\<bar> \<le> 3001"
    using u(2) assms by linarith
  then have "\<exists>s. round_double (u + r3) = Finite s \<and> \<bar>s - (u + r3)\<bar> \<le> 1 / 1000000000000"
    by (rule round_double_within) simp_all
  then obtain s
    where s: "round_double (u + r3) = Finite s" "\<bar>s - (u + r3)\<bar> \<le> 1 / 1000000000000"
    by blast
  have "double_add (double_add (Finite r1) (Finite r2)) (Finite r3) = Finite s"
    by (simp add: u(1) s(1))
  moreover have "\<bar>s - (r1 + r2 + r3)\<bar> \<le> 2 / 1000000000000"
    using u(2) s(2) by linarith
  ultimately show ?thesis
    by blast
qed


lemma calculated_unfold:
  "CALCULATED_STATE_TAX_MONTHLY ieee_ops vars base
     = ''$'' @ double_toFixed (double_div (double_mul base (rate_of vars ''INCOME_TAX_RATE'')) (Finite 100)) 2"
  "CALCULATED_LOCAL_TAX_MONTHLY ieee_ops vars base
     = ''$'' @ double_toFixed (double_div (double_mul base (rate_of vars ''LOCAL_INCOME_TAX'')) (Finite 100)) 2"
  "CALCULATED_SDI_MONTHLY ieee_ops vars base
     = ''$'' @ double_toFixed (double_div (double_mul base (rate_of vars ''SDI_RATE'')) (Finite 100)) 2"
  "CALCULATED_TOTAL_STATE_DEDUCTIONS ieee_ops vars base
     = ''$'' @ double_toFixed (double_div (double_mul base
         (double_add (double_add (rate_of vars ''INCOME_TAX_RATE'') (rate_of vars ''LOCAL_INCOME_TAX''))
            (rate_of vars ''SDI_RATE''))) (Finite 100)) 2"
  by (simp_all add: CALCULATED_STATE_TAX_MONTHLY_def CALCULATED_LOCAL_TAX_MONTHLY_def
      CALCULATED_SDI_MONTHLY_def CALCULATED_TOTAL_STATE_DEDUCTIONS_def ieee_ops_def rate_of_def
      literal_100)

lemma product_bound:
  assumes "\<bar>b\<bar> \<le> 1000000" and "\<bar>r\<bar> \<le> 3002"
  shows "\<bar>b * r :: rat\<bar> \<le> 3002000000"
proof -
  have "\<bar>b * r\<bar> \<le> 1000000 * 3002"
    unfolding abs_mult using assms by (intro mult_mono) simp_all
  then show ?thesis
    by simp
qed

lemma amount_cents:
  assumes b: "\<bar>b\<bar> \<le> 1000000" and r: "\<bar>r\<bar> \<le> 3002"
  shows "\<exists>x. double_div (double_mul (Finite b) (Finite r)) (Finite 100) = Finite x
           \<and> \<bar>x - b * r / 100\<bar> \<le> 1 / 100000000
           \<and> is_currency (''$'' @ double_toFixed (Finite x) 2)
           \<and> \<bar>of_int (cents_of_amount (''$'' @ double_toFixed (Finite x) 2)) - 100 * x\<bar> \<le> 1 / 2"
proof -
  from amount_error [OF b r] obtain x
    where x: "double_div (double_mul (Finite b) (Finite r)) (Finite 100) = Finite x"
      "\<bar>x - b * r / 100\<bar> \<le> 1 / 100000000"
    by blast
  have "\<bar>x\<bar> \<le> 30020001"
    using x(2) product_bound [OF b r] by linarith
  then have "\<bar>x\<bar> < 10 ^ 21"
    by simp
  then show ?thesis
    using x toFixed_amount(1) cents_error by blast
qed

text \<open>
  The total is computed from the rounded sum of the rates and formatted once; each amount
  is formatted on its own. The four numbers are within \<open>10\<^sup>-\<^sup>7\<close> of the exact values, and
  each text is within half a cent of its number: the cents of the total are less than 3
  away from the sum of the cents of the amounts.
\<close>

lemma cents_of_total_bound:
  assumes rates: "rate_of vars ''INCOME_TAX_RATE'' = Finite r1"
      "rate_of vars ''LOCAL_INCOME_TAX'' = Finite r2" "rate_of vars ''SDI_RATE'' = Finite r3"
    and r: "\<bar>r1\<bar> \<le> 1000" "\<bar>r2\<bar> \<le> 1000" "\<bar>r3\<bar> \<le> 1000"
    and b: "\<bar>b\<bar> \<le> 1000000"
  shows "is_currency (CALCULATED_STATE_TAX_MONTHLY ieee_ops vars (Finite b))
    \<and> is_currency (CALCULATED_LOCAL_TAX_MONTHLY ieee_ops vars (Finite b))
    \<and> is_currency (CALCULATED_SDI_MONTHLY ieee_ops vars (Finite b))
    \<and> is_currency (CALCULATED_TOTAL_STATE_DEDUCTIONS ieee_ops vars (Finite b))
    \<and> \<bar>cents_of_amount (CALCULATED_TOTAL_STATE_DEDUCTIONS ieee_ops vars (Finite b))
         - (cents_of_amount (CALCULATED_STATE_TAX_MONTHLY ieee_ops vars (Finite b))
            + cents_of_amount (CALCULATED_LOCAL_TAX_MONTHLY ieee_ops vars (Finite b))
            + cents_of_amount (CALCULATED_SDI_MONTHLY ieee_ops vars (Finite b)))\<bar> \<le> 2"
proof -
  have r': "\<bar>r1\<bar> \<le> 3002" "\<bar>r2\<bar> \<le> 3002" "\<bar>r3\<bar> \<le> 3002"
    using r by simp_all
  from amount_cents [OF b r'(1)] obtain x1
    where x1: "double_div (double_mul (Finite b) (Finite r1)) (Finite 100) = Finite x1"
      "\<bar>x1 - b * r1 / 100\<bar> \<le> 1 / 100000000"
      "is_currency (''$'' @ double_toFixed (Finite x1) 2)"
      "\<bar>of_int (cents_of_amount (''$'' @ double_toFixed (Finite x1) 2)) - 100 * x1\<bar> \<le> 1 / 2"
    by blast
  from amount_cents [OF b r'(2)] obtain x2
    where x2: "double_div (double_mul (Finite b) (Finite r2)) (Finite 100) = Finite x2"
      "\<bar>x2 - b * r2 / 100\<bar> \<le> 1 / 100000000"
      "is_currency (''$'' @ double_toFixed (Finite x2) 2)"
      "\<bar>of_int (cents_of_amount (''$'' @ double_toFixed (Finite x2) 2)) - 100 * x2\<bar> \<le> 1 / 2"
    by blast
  from amount_cents [OF b r'(3)] obtain x3
    where x3: "double_div (double_mul (Finite b) (Finite r3)) (Finite 100) = Finite x3"
      "\<bar>x3 - b * r3 / 100\<bar> \<le> 1 / 100000000"
      "is_currency (''$'' @ double_toFixed (Finite x3) 2)"
      "\<bar>of_int (cents_of_amount (''$'' @ double_toFixed (Finite x3) 2)) - 100 * x3\<bar> \<le> 1 / 2"
    by blast
  from rate_sum_error [OF r] obtain s
    where s: "double_add (double_add (Finite r1) (Finite r2)) (Finite r3) = Finite s"
      "\<bar>s - (r1 + r2 + r3)\<bar> \<le> 2 / 1000000000000"
    by blast
  have "\<bar>s\<bar> \<le> 3002"
    using s(2) r by linarith
  from amount_cents [OF b this] obtain t
    where t: "double_div (double_mul (Finite b) (Finite s)) (Finite 100) = Finite t"
      "\<bar>t - b * s / 100\<bar> \<le> 1 / 100000000"
      "is_currency (''$'' @ double_toFixed (Finite t) 2)"
      "\<bar>of_int (cents_of_amount (''$'' @ double_toFixed (Finite t) 2)) - 100 * t\<bar> \<le> 1 / 2"
    by blast
  have "\<bar>b * (s - (r1 + r2 + r3))\<bar> \<le> 1000000 * (2 / 1000000000000)"
    unfolding abs_mult using b s(2) by (intro mult_mono) simp_all
  then have bs: "\<bar>b * s - (b * r1 + b * r2 + b * r3)\<bar> \<le> 2 / 1000000"
    by (simp add: algebra_simps)
  define c1 where "c1 = cents_of_amount (''$'' @ double_toFixed (Finite x1) 2)"
  define c2 where "c2 = cents_of_amount (''$'' @ double_toFixed (Finite x2) 2)"
  define c3 where "c3 = cents_of_amount (''$'' @ double_toFixed (Finite x3) 2)"
  define ct where "ct = cents_of_amount (''$'' @ double_toFixed (Finite t) 2)"
  have "\<bar>of_int ct - (of_int c1 + of_int c2 + of_int c3) :: rat\<bar> < 3"
    using x1(2, 4) x2(2, 4) x3(2, 4) t(2, 4) bs
    unfolding c1_def [symmetric] c2_def [symmetric] c3_def [symmetric] ct_def [symmetric]
    by linarith
  then have "(of_int \<bar>ct - (c1 + c2 + c3)\<bar> :: rat) < of_int 3"
    by simp
  then have "\<bar>ct - (c1 + c2 + c3)\<bar> < 3"
    by (simp only: of_int_less_iff)
  then have "\<bar>ct - (c1 + c2 + c3)\<bar> \<le> 2"
    by simp
  then show ?thesis
    unfolding calculated_unfold rates x1(1) x2(1) x3(1) s(1) t(1) c1_def c2_def c3_def ct_def
    using x1(3) x2(3) x3(3) t(3) by simp
qed

text \<open>A missing or falsy rate is the number 0, and a rate that is not a number spreads.\<close>

lemma parseFloat_zero: "js_parseFloat ''0'' = Finite 0"
  by code_simp

lemma rate_of_falsy: "\<not> js_truthy (map_of vars name) \<Longrightarrow> rate_of vars name = Finite 0"
  by (simp add: rate_of_def js_truthy_def js_or_def ieee_ops_def parseFloat_zero
      split: option.splits)

lemma double_mul_NaN: "double_mul x NaN = NaN"
  by (cases x) simp_all

lemma double_add_NaN: "double_add x NaN = NaN"
  by (cases x) simp_all

lemma toFixed_NaN: "double_toFixed NaN f = ''NaN''"
  by (simp add: double_toFixed_def)

lemma amount_NaN:
  "rate_of vars ''INCOME_TAX_RATE'' = NaN \<Longrightarrow>
     CALCULATED_STATE_TAX_MONTHLY ieee_ops vars base = ''$NaN''"
  "rate_of vars ''LOCAL_INCOME_TAX'' = NaN \<Longrightarrow>
     CALCULATED_LOCAL_TAX_MONTHLY ieee_ops vars base = ''$NaN''"
  "rate_of vars ''SDI_RATE'' = NaN \<Longrightarrow>
     CALCULATED_SDI_MONTHLY ieee_ops vars base = ''$NaN''"
  by (simp_all add: calculated_unfold double_mul_NaN toFixed_NaN)

lemma total_NaN:
  "rate_of vars ''INCOME_TAX_RATE'' = NaN \<or> rate_of vars ''LOCAL_INCOME_TAX'' = NaN
     \<or> rate_of vars ''SDI_RATE'' = NaN \<Longrightarrow>
     CALCULATED_TOTAL_STATE_DEDUCTIONS ieee_ops vars base = ''$NaN''"
  by (auto simp: calculated_unfold double_mul_NaN double_add_NaN toFixed_NaN)


text \<open>
  Claim C4, as the code has it. Take state variables whose three rates read, by
  \<^verbatim>\<open>parseFloat(vars.NAME || 0)\<close>, as finite numbers of magnitude at most 1000, and a finite base
  amount of magnitude at most 1,000,000. Then each of the four calculated fields is a
  currency text, a dollar sign and a number with two decimals, and the total differs from
  the sum of the three amounts by at most two cents. They need not be equal: the total is
  base times the sum of the rates over 100, rounded to the cent once, and each amount is
  rounded to the cent on its own. A rate that is missing or falsy reads as 0. A rate that
  reads as \<^verbatim>\<open>NaN\<close> makes its amount and the total \<^verbatim>\<open>$NaN\<close>, whatever the base amount.
\<close>

theorem calculated_total_within_two_cents:
  "(rate_of vars ''INCOME_TAX_RATE'' = Finite stateRate \<longrightarrow> rate_of vars ''LOCAL_INCOME_TAX'' = Finite localRate \<longrightarrow>
      rate_of vars ''SDI_RATE'' = Finite sdiRate \<longrightarrow>
      \<bar>stateRate\<bar> \<le> 1000 \<longrightarrow> \<bar>localRate\<bar> \<le> 1000 \<longrightarrow> \<bar>sdiRate\<bar> \<le> 1000 \<longrightarrow> \<bar>b\<bar> \<le> 1000000 \<longrightarrow>
      is_currency (CALCULATED_STATE_TAX_MONTHLY ieee_ops vars (Finite b))
      \<and> is_currency (CALCULATED_LOCAL_TAX_MONTHLY ieee_ops vars (Finite b))
      \<and> is_currency (CALCULATED_SDI_MONTHLY ieee_ops vars (Finite b))
      \<and> is_currency (CALCULATED_TOTAL_STATE_DEDUCTIONS ieee_ops vars (Finite b))
      \<and> \<bar>cents_of_amount (CALCULATED_TOTAL_STATE_DEDUCTIONS ieee_ops vars (Finite b))
           - (cents_of_amount (CALCULATED_STATE_TAX_MONTHLY ieee_ops vars (Finite b))
              + cents_of_amount (CALCULATED_LOCAL_TAX_MONTHLY ieee_ops vars (Finite b))
              + cents_of_amount (CALCULATED_SDI_MONTHLY ieee_ops vars (Finite b)))\<bar> \<le> 2)
   \<and> (\<not> js_truthy (map_of absent name) \<longrightarrow> rate_of absent name = Finite 0)
   \<and> (rate_of unread ''INCOME_TAX_RATE'' = NaN \<longrightarrow>
        CALCULATED_STATE_TAX_MONTHLY ieee_ops unread base = ''$NaN'')
   \<and> (rate_of unread ''LOCAL_INCOME_TAX'' = NaN \<longrightarrow>
        CALCULATED_LOCAL_TAX_MONTHLY ieee_ops unread base = ''$NaN'')
   \<and> (rate_of unread ''SDI_RATE'' = NaN \<longrightarrow>
        CALCULATED_SDI_MONTHLY ieee_ops unread base = ''$NaN'')
   \<and> (rate_of unread ''INCOME_TAX_RATE'' = NaN \<or> rate_of unread ''LOCAL_INCOME_TAX'' = NaN
          \<or> rate_of unread ''SDI_RATE'' = NaN \<longrightarrow>
        CALCULATED_TOTAL_STATE_DEDUCTIONS ieee_ops unread base = ''$NaN'')"
  using cents_of_total_bound [of vars stateRate localRate sdiRate b] rate_of_falsy [of absent name]
    amount_NaN [of unread base] total_NaN [of unread base]
  by blast

theorem calculated_total_within_two_cents_witness:
  "is_currency (CALCULATED_STATE_TAX_MONTHLY ieee_ops (same_rates ''0.000125'') (Finite 4000))
   \<and> is_currency (CALCULATED_LOCAL_TAX_MONTHLY ieee_ops (same_rates ''0.000125'') (Finite 4000))
   \<and> is_currency (CALCULATED_SDI_MONTHLY ieee_ops (same_rates ''0.000125'') (Finite 4000))
   \<and> is_currency (CALCULATED_TOTAL_STATE_DEDUCTIONS ieee_ops (same_rates ''0.000125'') (Finite 4000))
   \<and> \<bar>cents_of_amount (CALCULATED_TOTAL_STATE_DEDUCTIONS ieee_ops (same_rates ''0.000125'') (Finite 4000))
        - (cents_of_amount (CALCULATED_STATE_TAX_MONTHLY ieee_ops (same_rates ''0.000125'') (Finite 4000))
           + cents_of_amount (CALCULATED_LOCAL_TAX_MONTHLY ieee_ops (same_rates ''0.000125'') (Finite 4000))
           + cents_of_amount (CALCULATED_SDI_MONTHLY ieee_ops (same_rates ''0.000125'') (Finite 4000)))\<bar> \<le> 2
   \<and> rate_of [(''INCOME_TAX_RATE'', JStr ''4.75''), (''SDI_RATE'', JStr [])] ''SDI_RATE'' = Finite 0
   \<and> rate_of [(''INCOME_TAX_RATE'', JStr ''4.75''), (''SDI_RATE'', JStr [])] ''LOCAL_INCOME_TAX'' = Finite 0
   \<and> CALCULATED_STATE_TAX_MONTHLY ieee_ops (same_rates ''n/a'') (Finite 4000) = ''$NaN''
   \<and> CALCULATED_LOCAL_TAX_MONTHLY ieee_ops (same_rates ''n/a'') (Finite 4000) = ''$NaN''
   \<and> CALCULATED_SDI_MONTHLY ieee_ops (same_rates ''n/a'') (Finite 4000) = ''$NaN''
   \<and> CALCULATED_TOTAL_STATE_DEDUCTIONS ieee_ops (same_rates ''n/a'') (Finite 4000) = ''$NaN''"
proof -
  have rate: "rate_of (same_rates ''0.000125'') ''INCOME_TAX_RATE'' = Finite (1152921504606847 / 9223372036854775808)"
    "rate_of (same_rates ''0.000125'') ''LOCAL_INCOME_TAX'' = Finite (1152921504606847 / 9223372036854775808)"
    "rate_of (same_rates ''0.000125'') ''SDI_RATE'' = Finite (1152921504606847 / 9223372036854775808)"
    by code_simp+
  have unread: "rate_of (same_rates ''n/a'') ''INCOME_TAX_RATE'' = NaN"
    "rate_of (same_rates ''n/a'') ''LOCAL_INCOME_TAX'' = NaN"
    "rate_of (same_rates ''n/a'') ''SDI_RATE'' = NaN"
    by code_simp+
  have falsy: "\<not> js_truthy (map_of [(''INCOME_TAX_RATE'', JStr ''4.75''), (''SDI_RATE'', JStr [])] ''SDI_RATE'')"
    "\<not> js_truthy (map_of [(''INCOME_TAX_RATE'', JStr ''4.75''), (''SDI_RATE'', JStr [])] ''LOCAL_INCOME_TAX'')"
    by (simp_all add: js_truthy_def)
  show ?thesis
    using calculated_total_within_two_cents
        [where vars = "same_rates ''0.000125''" and b = 4000
           and stateRate = "1152921504606847 / 9223372036854775808"
           and localRate = "1152921504606847 / 9223372036854775808"
           and sdiRate = "1152921504606847 / 9223372036854775808"
           and absent = "[(''INCOME_TAX_RATE'', JStr ''4.75''), (''SDI_RATE'', JStr [])]"
           and name = "''SDI_RATE''" and unread = "same_rates ''n/a''" and base = "Finite 4000"]
      calculated_total_within_two_cents
        [where vars = "[]" and b = 0 and stateRate = 0 and localRate = 0 and sdiRate = 0
           and absent = "[(''INCOME_TAX_RATE'', JStr ''4.75''), (''SDI_RATE'', JStr [])]"
           and name = "''LOCAL_INCOME_TAX''" and unread = "[]" and base = NaN]
    by (simp only: rate unread falsy) simp
qed

text \<open>
  Claim C4 as the specification words it fails for the base amount 4000 of the generator.
  With the three rates 0.000125 each amount is \<^verbatim>\<open>$0.01\<close> and the total is \<^verbatim>\<open>$0.01\<close>, not
  \<^verbatim>\<open>$0.03\<close>. With the three rates \<open>2\<^sup>-\<^sup>1\<^sup>4\<close> each amount is \<^verbatim>\<open>$0.00\<close> and the total is \<^verbatim>\<open>$0.01\<close>.
  With rates that are not numbers the amounts and the total are \<^verbatim>\<open>$NaN\<close>, which is no
  currency text.
\<close>

theorem calculated_total_differs_counterexample:
  "CALCULATED_STATE_TAX_MONTHLY ieee_ops (same_rates ''0.000125'') (Finite 4000) = ''$0.01''
   \<and> CALCULATED_LOCAL_TAX_MONTHLY ieee_ops (same_rates ''0.000125'') (Finite 4000) = ''$0.01''
   \<and> CALCULATED_SDI_MONTHLY ieee_ops (same_rates ''0.000125'') (Finite 4000) = ''$0.01''
   \<and> CALCULATED_TOTAL_STATE_DEDUCTIONS ieee_ops (same_rates ''0.000125'') (Finite 4000) = ''$0.01''
   \<and> CALCULATED_STATE_TAX_MONTHLY ieee_ops (same_rates ''0.00006103515625'') (Finite 4000) = ''$0.00''
   \<and> CALCULATED_LOCAL_TAX_MONTHLY ieee_ops (same_rates ''0.00006103515625'') (Finite 4000) = ''$0.00''
   \<and> CALCULATED_SDI_MONTHLY ieee_ops (same_rates ''0.00006103515625'') (Finite 4000) = ''$0.00''
   \<and> CALCULATED_TOTAL_STATE_DEDUCTIONS ieee_ops (same_rates ''0.00006103515625'') (Finite 4000) = ''$0.01''
   \<and> CALCULATED_SDI_MONTHLY ieee_ops (same_rates ''abc'') (Finite 4000) = ''$NaN''
   \<and> CALCULATED_TOTAL_STATE_DEDUCTIONS ieee_ops (same_rates ''abc'') (Finite 4000) = ''$NaN''"
  by code_simp

end
